theory Spec2Isabelle
  imports Main "HOL-Library.AList"
begin

section \<open>Python values and errors\<close>

text \<open>
  The payloads the stages read are the results of \<^verbatim>\<open>json.loads\<close>: a parsed JSON
  document. A Python dict is represented by an association list read with \<open>map_of\<close>
  (the first binding of a key is the dict's value for it); \<open>JNull\<close> is Python's
  \<^verbatim>\<open>None\<close>. Numbers are the integers (JSON floats are left out).
\<close>

datatype json =
    JNull
  | JBool bool
  | JNum int
  | JStr string
  | JArr "json list"
  | JObj "(string \<times> json) list"

text \<open>The exceptions the modelled code can raise.\<close>

datatype error =
    IntegrityError
  | AssertionError
  | TypeError
  | KeyError
  | AttributeError
  | UnboundLocalError
  | ValueError
  | DoesNotExist
  | IndexError

text \<open>Sequencing of a step that may raise with the rest of the body.\<close>

definition and_then :: "error + 'a \<Rightarrow> ('a \<Rightarrow> error + 'b) \<Rightarrow> error + 'b" where
  "and_then r f = (case r of Inl e \<Rightarrow> Inl e | Inr x \<Rightarrow> f x)"

text \<open>\<^verbatim>\<open>d.get(k)\<close>: only a dict has the method; a missing key gives \<^verbatim>\<open>None\<close>.\<close>

fun py_get :: "json \<Rightarrow> string \<Rightarrow> error + json" where
  "py_get (JObj kvs) k = Inr (case map_of kvs k of None \<Rightarrow> JNull | Some v \<Rightarrow> v)"
| "py_get _ k = Inl AttributeError"

text \<open>\<^verbatim>\<open>d[k]\<close> with a string key \<open>k\<close>.\<close>

fun py_getitem :: "json \<Rightarrow> string \<Rightarrow> error + json" where
  "py_getitem (JObj kvs) k = (case map_of kvs k of None \<Rightarrow> Inl KeyError | Some v \<Rightarrow> Inr v)"
| "py_getitem _ k = Inl TypeError"

text \<open>Truth value of a value in a condition (\<^verbatim>\<open>if mediatype:\<close>).\<close>

fun py_truthy :: "json \<Rightarrow> bool" where
  "py_truthy JNull = False"
| "py_truthy (JBool b) = b"
| "py_truthy (JNum n) = (n \<noteq> 0)"
| "py_truthy (JStr s) = (s \<noteq> [])"
| "py_truthy (JArr xs) = (xs \<noteq> [])"
| "py_truthy (JObj kvs) = (kvs \<noteq> [])"

text \<open>
  \<^verbatim>\<open>for x in v\<close>: a list gives its elements, a string its characters, a dict its keys;
  anything else is not iterable.
\<close>

fun py_iter :: "json \<Rightarrow> error + json list" where
  "py_iter (JArr xs) = Inr xs"
| "py_iter (JStr s) = Inr (map (\<lambda>c. JStr [c]) s)"
| "py_iter (JObj kvs) = Inr (map JStr (remdups (map fst kvs)))"
| "py_iter _ = Inl TypeError"

text \<open>\<^verbatim>\<open>v[n:]\<close>: strings and lists can be sliced.\<close>

fun py_slice_from :: "nat \<Rightarrow> json \<Rightarrow> error + json" where
  "py_slice_from n (JStr s) = Inr (JStr (drop n s))"
| "py_slice_from n (JArr xs) = Inr (JArr (drop n xs))"
| "py_slice_from n _ = Inl TypeError"

text \<open>
  A value used as a dict key must be hashable (lists and dicts are not); \<^verbatim>\<open>True\<close> and
  \<^verbatim>\<open>1\<close> are the same key.
\<close>

fun py_key :: "json \<Rightarrow> error + json" where
  "py_key (JArr xs) = Inl TypeError"
| "py_key (JObj kvs) = Inl TypeError"
| "py_key (JBool b) = Inr (JNum (if b then 1 else 0))"
| "py_key v = Inr v"

text \<open>\<^verbatim>\<open>url.split('/')[-1]\<close>: what follows the last slash (the whole string without one).\<close>

definition last_segment :: "string \<Rightarrow> string" where
  "last_segment s = rev (takeWhile (\<lambda>c. c \<noteq> CHR ''/'') (rev s))"

section \<open>The stage and what it is configured with\<close>

text \<open>
  \<^verbatim>\<open>pulp_docker.app.models\<close> is not part of the sources at hand, so the three media type
  constants of \<^verbatim>\<open>MEDIA_TYPE\<close> are parameters. The library functions \<^verbatim>\<open>urljoin\<close> and
  \<^verbatim>\<open>str\<close> (on a value that is not a string) are parameters as well: nothing below
  depends on what they compute.
\<close>

record media_types =
  MANIFEST_V2 :: string
  MANIFEST_LIST :: string
  FOREIGN_BLOB :: string

text \<open>
  What a finished download exposes: the path of the file, the URL it was asked for, the
  checksum (of \<^verbatim>\<open>artifact_attributes\<close>, the \<open>sha256\<close>), and \<open>payload\<close>, the document that
  \<^verbatim>\<open>json.loads\<close> reads from the file at \<open>path\<close>.
\<close>

record download_result =
  path :: string
  result_url :: string
  artifact_attributes :: string
  payload :: json

record remote =
  url :: string
  namespaced_upstream_name :: string
  include_foreign_layers :: bool
  get_downloader :: "string \<Rightarrow> download_result"

record stage =
  remote :: remote
  MEDIA_TYPE :: media_types
  urljoin :: "string \<Rightarrow> string \<Rightarrow> string"
  py_str :: "json \<Rightarrow> string"

text \<open>An argument of \<^verbatim>\<open>str.format\<close>: a string is inserted as it is.\<close>

definition format_arg :: "stage \<Rightarrow> json \<Rightarrow> string" where
  "format_arg self v = (case v of JStr s \<Rightarrow> s | _ \<Rightarrow> py_str self v)"

definition V2_ACCEPT_HEADERS :: "stage \<Rightarrow> (string \<times> string) list" where
  "V2_ACCEPT_HEADERS self =
     [(''accept'', MANIFEST_V2 (MEDIA_TYPE self) @ '','' @ MANIFEST_LIST (MEDIA_TYPE self))]"

definition manifests_url :: "stage \<Rightarrow> json \<Rightarrow> string" where
  "manifests_url self tag =
     urljoin self (url (remote self))
       (''/v2/'' @ namespaced_upstream_name (remote self) @ ''/manifests/'' @ format_arg self tag)"

definition blobs_url :: "stage \<Rightarrow> json \<Rightarrow> string" where
  "blobs_url self digest =
     urljoin self (url (remote self))
       (''/v2/'' @ namespaced_upstream_name (remote self) @ ''/blobs/'' @ format_arg self digest)"

definition tags_list_url :: "stage \<Rightarrow> string" where
  "tags_list_url self =
     urljoin self (url (remote self))
       (''/v2/'' @ namespaced_upstream_name (remote self) @ ''/tags/list'')"

text \<open>\<^verbatim>\<open>DockerFirstStage._include_layer\<close>.\<close>

definition include_layer :: "stage \<Rightarrow> json \<Rightarrow> error + bool" where
  "include_layer self layer =
     (let foreign_excluded = (\<not> include_foreign_layers (remote self)) in
      and_then (py_get layer ''mediaType'') (\<lambda>mt.
        let is_foreign = (mt = JStr (FOREIGN_BLOB (MEDIA_TYPE self))) in
        if is_foreign \<and> foreign_excluded then Inr False else Inr True))"

section \<open>Content, declarative content and the store\<close>

text \<open>
  Modelled from the spec: \<^verbatim>\<open>Artifact\<close>, a model class of the framework; of its attributes
  the checksum (\<open>sha256\<close>) and the file are kept.
\<close>

datatype artifact = Artifact (sha256: json) (artifact_file: "string option")

text \<open>
  Modelled from the spec: the model classes of \<^verbatim>\<open>pulp_docker.app.models\<close>, which is not
  among the sources. The data model of the spec (section 3) gives the entities and their
  attributes; a reference to another content unit (the target of a tag, the
  \<open>config_blob\<close> of a manifest, the two ends of an edge) is the digest of that unit, and
  \<open>None\<close> while it is unset. The attributes hold what the code stores in them, which is
  a value of the document as it is.
\<close>

datatype content =
    ManifestTag (name: string) (manifest: "json option")
  | ManifestListTag (name: string) (manifest_list: "json option")
  | ImageManifest (digest: json) (schema_version: json) (media_type: json)
      (config_blob: "json option")
  | ManifestList (digest: json) (schema_version: json) (media_type: json)
  | ManifestBlob (digest: json) (media_type: json)

record d_artifact =
  artifact :: artifact
  da_url :: string
  relative_path :: json
  da_remote :: remote
  da_extra_data :: "(string \<times> (string \<times> string) list) list"

text \<open>
  A \<^verbatim>\<open>DeclarativeContent\<close> is an object with identity: other nodes point at it from their
  \<open>extra_data\<close>, and the stages mutate it in place. The objects live in a heap, addressed
  by references; the heap is total (an address not yet allocated holds some node nobody
  points at).
\<close>

type_synonym ref = nat

record dc =
  content :: content
  d_artifacts :: "d_artifact list"
  extra_data :: "(string \<times> ref) list"
  does_batch :: bool

text \<open>
  Modelled from the spec: the Content Identity Store (sections 3 and 6), one table of rows
  for each model (its \<^verbatim>\<open>objects\<close>), and the two tables of edges.
\<close>

record db =
  Artifact_objects :: "artifact list"
  ManifestList_objects :: "content list"
  ImageManifest_objects :: "content list"
  ManifestBlob_objects :: "content list"
  ManifestTag_objects :: "content list"
  ManifestListTag_objects :: "content list"
  BlobManifestBlob_objects :: "(json \<times> json) list"
  ManifestListManifest_objects :: "(json \<times> json) list"

text \<open>
  What a stage works on: the heap of nodes (with the next free address), the store, and
  the output queue. An entry of the queue is the reference that \<^verbatim>\<open>put\<close> was given, with
  the node as it was at that moment.
\<close>

record world =
  heap :: "ref \<Rightarrow> dc"
  next_ref :: ref
  db :: db
  out :: "(ref \<times> dc) list"

definition put :: "('a world_scheme) \<Rightarrow> ref \<Rightarrow> ('a world_scheme)" where
  "put w r = w\<lparr>out := out w @ [(r, heap w r)]\<rparr>"

definition set_content :: "('a world_scheme) \<Rightarrow> ref \<Rightarrow> content \<Rightarrow> ('a world_scheme)" where
  "set_content w r c = w\<lparr>heap := (heap w)(r := (heap w r)\<lparr>content := c\<rparr>)\<rparr>"

text \<open>
  Modelled from the spec: \<^verbatim>\<open>save\<close> of an artifact. It is the \<open>create\<close> of the store
  (section 6), which raises the duplicate-conflict signal (\<^verbatim>\<open>IntegrityError\<close>) on a
  uniqueness violation; there is one artifact per checksum.
\<close>

definition Artifact_save :: "db \<Rightarrow> artifact \<Rightarrow> error + db" where
  "Artifact_save d a =
     (if \<exists>x \<in> set (Artifact_objects d). sha256 x = sha256 a then Inl IntegrityError
      else Inr (d\<lparr>Artifact_objects := Artifact_objects d @ [a]\<rparr>))"

text \<open>
  Modelled from the spec: \<^verbatim>\<open>Artifact.objects.get\<close>, the existing row fetched by its
  checksum.
\<close>

definition Artifact_get :: "db \<Rightarrow> json \<Rightarrow> error + artifact" where
  "Artifact_get d s =
     (case find (\<lambda>x. sha256 x = s) (Artifact_objects d) of
        None \<Rightarrow> Inl DoesNotExist | Some a \<Rightarrow> Inr a)"

text \<open>
  Modelled from the spec: \<^verbatim>\<open>save\<close> of a content unit. There is one row per digest and
  one tag row per pair of name and target, and creating a second one raises the
  duplicate-conflict signal. A manifest is persisted by writing the row of its digest
  (the relating stage saves it to record its \<open>config_blob\<close>).
\<close>

fun same_digest :: "json \<Rightarrow> content \<Rightarrow> bool" where
  "same_digest g (ImageManifest g' _ _ _) = (g' = g)"
| "same_digest g (ManifestList g' _ _) = (g' = g)"
| "same_digest g (ManifestBlob g' _) = (g' = g)"
| "same_digest g _ = False"

fun save :: "db \<Rightarrow> content \<Rightarrow> error + db" where
  "save d (ManifestTag n m) =
     (if ManifestTag n m \<in> set (ManifestTag_objects d) then Inl IntegrityError
      else Inr (d\<lparr>ManifestTag_objects := ManifestTag_objects d @ [ManifestTag n m]\<rparr>))"
| "save d (ManifestListTag n m) =
     (if ManifestListTag n m \<in> set (ManifestListTag_objects d) then Inl IntegrityError
      else Inr (d\<lparr>ManifestListTag_objects := ManifestListTag_objects d @ [ManifestListTag n m]\<rparr>))"
| "save d (ManifestList g v t) =
     (if \<exists>x \<in> set (ManifestList_objects d). same_digest g x then Inl IntegrityError
      else Inr (d\<lparr>ManifestList_objects := ManifestList_objects d @ [ManifestList g v t]\<rparr>))"
| "save d (ManifestBlob g t) =
     (if \<exists>x \<in> set (ManifestBlob_objects d). same_digest g x then Inl IntegrityError
      else Inr (d\<lparr>ManifestBlob_objects := ManifestBlob_objects d @ [ManifestBlob g t]\<rparr>))"
| "save d (ImageManifest g v t c) =
     Inr (d\<lparr>ImageManifest_objects :=
              filter (\<lambda>x. \<not> same_digest g x) (ImageManifest_objects d) @ [ImageManifest g v t c]\<rparr>)"

text \<open>
  Modelled from the spec: \<^verbatim>\<open>objects.get\<close> of a manifest list by its digest, and of a tag
  by its name and target; \<^verbatim>\<open>DoesNotExist\<close> when there is no such row.
\<close>

definition ManifestList_get :: "db \<Rightarrow> json \<Rightarrow> error + content" where
  "ManifestList_get d g =
     (case find (same_digest g) (ManifestList_objects d) of
        None \<Rightarrow> Inl DoesNotExist | Some x \<Rightarrow> Inr x)"

definition ManifestTag_get :: "db \<Rightarrow> string \<Rightarrow> json \<Rightarrow> error + content" where
  "ManifestTag_get d n g =
     (case find (\<lambda>x. x = ManifestTag n (Some g)) (ManifestTag_objects d) of
        None \<Rightarrow> Inl DoesNotExist | Some x \<Rightarrow> Inr x)"

definition ManifestListTag_get :: "db \<Rightarrow> string \<Rightarrow> json \<Rightarrow> error + content" where
  "ManifestListTag_get d n g =
     (case find (\<lambda>x. x = ManifestListTag n (Some g)) (ManifestListTag_objects d) of
        None \<Rightarrow> Inl DoesNotExist | Some x \<Rightarrow> Inr x)"

text \<open>
  Modelled from the spec: the rows of the two edge tables, a pair of digests each, and
  their \<^verbatim>\<open>save\<close>: an edge is unique, and creating it again raises the
  duplicate-conflict signal. A foreign key only takes an instance of the model it points
  to (\<^verbatim>\<open>ValueError\<close> otherwise).
\<close>

fun BlobManifestBlob :: "content \<Rightarrow> content \<Rightarrow> error + (json \<times> json)" where
  "BlobManifestBlob (ImageManifest g _ _ _) (ManifestBlob b _) = Inr (g, b)"
| "BlobManifestBlob _ _ = Inl ValueError"

fun ManifestListManifest :: "content \<Rightarrow> content \<Rightarrow> error + (json \<times> json)" where
  "ManifestListManifest (ManifestList g _ _) (ImageManifest m _ _ _) = Inr (g, m)"
| "ManifestListManifest _ _ = Inl ValueError"

definition BlobManifestBlob_save :: "db \<Rightarrow> json \<times> json \<Rightarrow> error + db" where
  "BlobManifestBlob_save d thru =
     (if thru \<in> set (BlobManifestBlob_objects d) then Inl IntegrityError
      else Inr (d\<lparr>BlobManifestBlob_objects := BlobManifestBlob_objects d @ [thru]\<rparr>))"

definition ManifestListManifest_save :: "db \<Rightarrow> json \<times> json \<Rightarrow> error + db" where
  "ManifestListManifest_save d thru =
     (if thru \<in> set (ManifestListManifest_objects d) then Inl IntegrityError
      else Inr (d\<lparr>ManifestListManifest_objects := ManifestListManifest_objects d @ [thru]\<rparr>))"

section \<open>The stage that relates content: \<^verbatim>\<open>InterrelateContent\<close>\<close>

text \<open>
  \<^verbatim>\<open>dc.extra_data.get(key)\<close> is the related node or \<^verbatim>\<open>None\<close>; reading \<^verbatim>\<open>.content\<close> of
  \<^verbatim>\<open>None\<close> raises \<^verbatim>\<open>AttributeError\<close>, as does reading an attribute a model does not have.
\<close>

definition relate_config_blob :: "world \<Rightarrow> ref \<Rightarrow> error + world" where
  "relate_config_blob w dc =
     (case map_of (extra_data (heap w dc)) ''config_relation'' of
        None \<Rightarrow> Inl AttributeError
      | Some configured_dc \<Rightarrow>
          (case content (heap w configured_dc) of
             ImageManifest g v t c \<Rightarrow>
               (case content (heap w dc) of
                  ManifestBlob b bt \<Rightarrow>
                    (let w1 = set_content w configured_dc (ImageManifest g v t (Some b)) in
                     and_then (save (db w1) (content (heap w1 configured_dc)))
                       (\<lambda>d. Inr (w1\<lparr>db := d\<rparr>)))
                | _ \<Rightarrow> Inl ValueError)
           | other \<Rightarrow> and_then (save (db w) other) (\<lambda>d. Inr (w\<lparr>db := d\<rparr>))))"

definition relate_blob :: "world \<Rightarrow> ref \<Rightarrow> error + world" where
  "relate_blob w dc =
     (case map_of (extra_data (heap w dc)) ''blob_relation'' of
        None \<Rightarrow> Inl AttributeError
      | Some related_dc \<Rightarrow>
          and_then (BlobManifestBlob (content (heap w related_dc)) (content (heap w dc)))
            (\<lambda>thru.
               case BlobManifestBlob_save (db w) thru of
                 Inr d \<Rightarrow> Inr (w\<lparr>db := d\<rparr>)
               | Inl e \<Rightarrow> if e = IntegrityError then Inr w else Inl e))"

definition relate_manifest :: "world \<Rightarrow> ref \<Rightarrow> error + world" where
  "relate_manifest w dc =
     (let related_dc = map_of (extra_data (heap w dc)) ''man_relation'' in
      case content (heap w dc) of
        ManifestTag n m \<Rightarrow>
          if m \<noteq> None then Inl AssertionError
          else
            (case related_dc of
               None \<Rightarrow> Inl AttributeError
             | Some r \<Rightarrow>
                 (case content (heap w r) of
                    ImageManifest g _ _ _ \<Rightarrow>
                      (let w1 = set_content w dc (ManifestTag n (Some g)) in
                       case save (db w1) (content (heap w1 dc)) of
                         Inr d \<Rightarrow> Inr (w1\<lparr>db := d\<rparr>)
                       | Inl e \<Rightarrow>
                           if e = IntegrityError then
                             (case content (heap w1 r) of
                                ImageManifest g' _ _ _ \<Rightarrow>
                                  and_then (ManifestTag_get (db w1) (name (content (heap w1 dc))) g')
                                    (\<lambda>existing_tag. Inr (set_content w1 dc existing_tag))
                              | _ \<Rightarrow> Inl ValueError)
                           else Inl e)
                  | _ \<Rightarrow> Inl ValueError))
      | _ \<Rightarrow> Inl AttributeError)"

definition relate_manifest_to_list :: "world \<Rightarrow> ref \<Rightarrow> error + world" where
  "relate_manifest_to_list w dc =
     (case map_of (extra_data (heap w dc)) ''relation'' of
        None \<Rightarrow> Inl AttributeError
      | Some related_dc \<Rightarrow>
          and_then (ManifestListManifest (content (heap w related_dc)) (content (heap w dc)))
            (\<lambda>thru.
               case ManifestListManifest_save (db w) thru of
                 Inr d \<Rightarrow> Inr (w\<lparr>db := d\<rparr>)
               | Inl e \<Rightarrow> if e = IntegrityError then Inr w else Inl e))"

fun content_name :: "content \<Rightarrow> error + string" where
  "content_name (ManifestTag n _) = Inr n"
| "content_name (ManifestListTag n _) = Inr n"
| "content_name _ = Inl AttributeError"

definition relate_manifest_list :: "world \<Rightarrow> ref \<Rightarrow> error + world" where
  "relate_manifest_list w dc =
     (let related_dc = map_of (extra_data (heap w dc)) ''list_relation'' in
      case save (db w) (content (heap w dc)) of
        Inr d \<Rightarrow> Inr (w\<lparr>db := d\<rparr>)
      | Inl e \<Rightarrow>
          if e = IntegrityError then
            and_then (content_name (content (heap w dc))) (\<lambda>n.
              case related_dc of
                None \<Rightarrow> Inl AttributeError
              | Some r \<Rightarrow>
                  (case content (heap w r) of
                     ManifestList g _ _ \<Rightarrow>
                       and_then (ManifestListTag_get (db w) n g)
                         (\<lambda>existing_tag. Inr (set_content w dc existing_tag))
                   | _ \<Rightarrow> Inl ValueError))
          else Inl e)"

text \<open>The body of the loop of \<^verbatim>\<open>InterrelateContent.run\<close> before its \<^verbatim>\<open>put\<close>.\<close>

definition relate :: "world \<Rightarrow> ref \<Rightarrow> error + world" where
  "relate w dc =
     (let e = extra_data (heap w dc) in
      if map_of e ''relation'' \<noteq> None then relate_manifest_to_list w dc
      else if map_of e ''blob_relation'' \<noteq> None then relate_blob w dc
      else if map_of e ''config_relation'' \<noteq> None then relate_config_blob w dc
      else if map_of e ''list_relation'' \<noteq> None then relate_manifest_list w dc
      else if map_of e ''man_relation'' \<noteq> None then relate_manifest w dc
      else Inr w)"

fun InterrelateContent_run :: "world \<Rightarrow> ref list \<Rightarrow> error + world" where
  "InterrelateContent_run w [] = Inr w"
| "InterrelateContent_run w (dc # items) =
     and_then (relate w dc) (\<lambda>w'. InterrelateContent_run (put w' dc) items)"

section \<open>The first stage: \<^verbatim>\<open>DockerFirstStage\<close>\<close>

record builder = world +
  future_manifests :: "ref list"
  list_dc_counter :: nat
  man_dc_counter :: nat
  man_dc_tagged_counter :: nat
  put_later_blob_dc :: "ref list"
  man_dcs :: "(json \<times> ref) list"

text \<open>Constructing a \<^verbatim>\<open>DeclarativeContent\<close> allocates a new object.\<close>

definition DeclarativeContent :: "('a world_scheme) \<Rightarrow> dc \<Rightarrow> ref \<times> ('a world_scheme)" where
  "DeclarativeContent st d =
     (next_ref st, st\<lparr>heap := (heap st)(next_ref st := d), next_ref := Suc (next_ref st)\<rparr>)"

text \<open>\<^verbatim>\<open>dc.extra_data[key] = target\<close>.\<close>

definition set_extra_data ::
  "('a world_scheme) \<Rightarrow> ref \<Rightarrow> string \<Rightarrow> ref \<Rightarrow> ('a world_scheme)" where
  "set_extra_data st r k v =
     st\<lparr>heap := (heap st)(r := (heap st r)\<lparr>extra_data := AList.update k v (extra_data (heap st r))\<rparr>)\<rparr>"

definition DeclarativeArtifact :: "stage \<Rightarrow> artifact \<Rightarrow> string \<Rightarrow> json \<Rightarrow> d_artifact" where
  "DeclarativeArtifact self a u p =
     \<lparr>artifact = a, da_url = u, relative_path = p, da_remote = remote self,
      da_extra_data = [(''headers'', V2_ACCEPT_HEADERS self)]\<rparr>"

definition create_tag ::
  "stage \<Rightarrow> builder \<Rightarrow> json \<Rightarrow> artifact \<Rightarrow> string \<Rightarrow> error + (ref \<times> builder)" where
  "create_tag self st mediatype saved_artifact u =
     (let tag_name = last_segment u;
          u' = manifests_url self (JStr tag_name);
          tag = (if mediatype = JStr (MANIFEST_LIST (MEDIA_TYPE self))
                   then Some (ManifestListTag tag_name None)
                 else if mediatype = JStr (MANIFEST_V2 (MEDIA_TYPE self))
                   then Some (ManifestTag tag_name None)
                 else None);
          da = DeclarativeArtifact self saved_artifact u' (JStr tag_name)
      in case tag of
           None \<Rightarrow> Inl UnboundLocalError
         | Some t \<Rightarrow>
             Inr (DeclarativeContent st
                    \<lparr>content = t, d_artifacts = [da], extra_data = [], does_batch = True\<rparr>))"

text \<open>\<^verbatim>\<open>"sha256:{digest}".format(digest=tag_dc.d_artifacts[0].artifact.sha256)\<close>.\<close>

definition tag_digest :: "stage \<Rightarrow> builder \<Rightarrow> ref \<Rightarrow> error + (json \<times> artifact)" where
  "tag_digest self st tag_dc =
     (case d_artifacts (heap st tag_dc) of
        [] \<Rightarrow> Inl IndexError
      | da0 # _ \<Rightarrow>
          Inr (JStr (''sha256:'' @ format_arg self (sha256 (artifact da0))), artifact da0))"

definition create_and_process_tagged_manifest_list ::
  "stage \<Rightarrow> builder \<Rightarrow> ref \<Rightarrow> json \<Rightarrow> error + (ref \<times> builder)" where
  "create_and_process_tagged_manifest_list self st tag_dc manifest_list_data =
     and_then (tag_digest self st tag_dc) (\<lambda>(dgst, a).
     and_then (py_getitem manifest_list_data ''schemaVersion'') (\<lambda>sv.
     and_then (py_getitem manifest_list_data ''mediaType'') (\<lambda>mt.
       let manifest_list = ManifestList dgst sv mt;
           da = DeclarativeArtifact self a (manifests_url self dgst) dgst;
           (list_dc, st1) = DeclarativeContent st
              \<lparr>content = manifest_list, d_artifacts = [da], extra_data = [], does_batch = True\<rparr>
       in case save (db st1) (content (heap st1 list_dc)) of
            Inr d \<Rightarrow> Inr (list_dc, st1\<lparr>db := d\<rparr>)
          | Inl e \<Rightarrow>
              if e = IntegrityError then
                and_then (ManifestList_get (db st1) dgst)
                  (\<lambda>existing_list. Inr (list_dc, set_content st1 list_dc existing_list))
              else Inl e)))"

definition create_and_process_tagged_manifest ::
  "stage \<Rightarrow> builder \<Rightarrow> ref \<Rightarrow> json \<Rightarrow> error + (ref \<times> builder)" where
  "create_and_process_tagged_manifest self st tag_dc manifest_data =
     and_then (tag_digest self st tag_dc) (\<lambda>(dgst, a).
     and_then (py_getitem manifest_data ''schemaVersion'') (\<lambda>sv.
     and_then (py_getitem manifest_data ''mediaType'') (\<lambda>mt.
       let manifest = ImageManifest dgst sv mt None;
           da = DeclarativeArtifact self a (manifests_url self dgst) dgst
       in Inr (DeclarativeContent st
            \<lparr>content = manifest, d_artifacts = [da], extra_data = [], does_batch = True\<rparr>))))"

definition create_and_process_manifest ::
  "stage \<Rightarrow> builder \<Rightarrow> ref \<Rightarrow> json \<Rightarrow> error + (ref \<times> builder)" where
  "create_and_process_manifest self st list_dc manifest_data =
     and_then (py_getitem manifest_data ''digest'') (\<lambda>dgst.
       let da = DeclarativeArtifact self (Artifact JNull None) (manifests_url self dgst) dgst in
       and_then (py_getitem manifest_data ''digest'') (\<lambda>dgst'.
       and_then (py_getitem manifest_data ''mediaType'') (\<lambda>mt.
         let manifest = ImageManifest dgst' (JNum 2) mt None in
         Inr (DeclarativeContent st
              \<lparr>content = manifest, d_artifacts = [da], extra_data = [(''relation'', list_dc)],
               does_batch = False\<rparr>))))"

definition create_and_process_blob ::
  "stage \<Rightarrow> builder \<Rightarrow> ref \<Rightarrow> json \<Rightarrow> error + (ref \<times> builder)" where
  "create_and_process_blob self st man_dc blob_data =
     and_then (py_getitem blob_data ''digest'') (\<lambda>dgst.
     and_then (py_slice_from (length ''sha256:'') dgst) (\<lambda>sha.
       let blob_artifact = Artifact sha None in
       and_then (py_getitem blob_data ''mediaType'') (\<lambda>mt.
         let blob = ManifestBlob dgst mt in
         and_then (py_getitem blob_data ''digest'') (\<lambda>d1.
         and_then (py_getitem blob_data ''digest'') (\<lambda>d2.
           let da = DeclarativeArtifact self blob_artifact (blobs_url self d1) d2 in
           Inr (DeclarativeContent st
                \<lparr>content = blob, d_artifacts = [da], extra_data = [], does_batch = True\<rparr>))))))"

text \<open>The loop over the layers of \<^verbatim>\<open>handle_blobs\<close>, then \<^verbatim>\<open>handle_blobs\<close> itself.\<close>

fun handle_layers :: "stage \<Rightarrow> builder \<Rightarrow> ref \<Rightarrow> json list \<Rightarrow> error + builder" where
  "handle_layers self st man [] = Inr st"
| "handle_layers self st man (layer # layers) =
     and_then (include_layer self layer) (\<lambda>inc.
       if \<not> inc then handle_layers self st man layers
       else
         and_then (create_and_process_blob self st man layer) (\<lambda>(blob_dc, st1).
           let st2 = set_extra_data st1 blob_dc ''blob_relation'' man in
           handle_layers self
             (st2\<lparr>put_later_blob_dc := put_later_blob_dc st2 @ [blob_dc]\<rparr>) man layers))"

definition handle_blobs :: "stage \<Rightarrow> builder \<Rightarrow> ref \<Rightarrow> json \<Rightarrow> error + builder" where
  "handle_blobs self st man content_data =
     and_then (py_get content_data ''layers'') (\<lambda>ls.
     and_then (py_iter ls) (\<lambda>layers.
     and_then (handle_layers self st man layers) (\<lambda>st1.
     and_then (py_get content_data ''config'') (\<lambda>layer.
     and_then (create_and_process_blob self st1 man layer) (\<lambda>(blob_dc, st2).
       let st3 = set_extra_data st2 blob_dc ''config_relation'' man in
       Inr (st3\<lparr>put_later_blob_dc := put_later_blob_dc st3 @ [blob_dc]\<rparr>))))))"

text \<open>
  The start of the body of the loop over the finished downloads: the artifact is saved,
  or, on a conflict, the row with its checksum is read.
\<close>

definition save_artifact :: "db \<Rightarrow> download_result \<Rightarrow> error + (artifact \<times> db)" where
  "save_artifact d results =
     (let saved_artifact = Artifact (JStr (artifact_attributes results)) (Some (path results)) in
      case Artifact_save d saved_artifact of
        Inr d' \<Rightarrow> Inr (saved_artifact, d')
      | Inl e \<Rightarrow>
          if e = IntegrityError then
            and_then (Artifact_get d (JStr (artifact_attributes results)))
              (\<lambda>existing. Inr (existing, d))
          else Inl e)"

text \<open>The loop over the members of a manifest list.\<close>

fun handle_manifests :: "stage \<Rightarrow> builder \<Rightarrow> ref \<Rightarrow> json list \<Rightarrow> error + builder" where
  "handle_manifests self st list_dc [] = Inr st"
| "handle_manifests self st list_dc (manifest_data # rest) =
     and_then (create_and_process_manifest self st list_dc manifest_data) (\<lambda>(man_dc, st1).
       let st2 = st1\<lparr>future_manifests := future_manifests st1 @ [man_dc]\<rparr> in
       case content (heap st2 man_dc) of
         ImageManifest g _ _ _ \<Rightarrow>
           and_then (py_key g) (\<lambda>k.
             let st3 = st2\<lparr>man_dcs := AList.update k man_dc (man_dcs st2)\<rparr>;
                 st4 = put st3 man_dc
             in handle_manifests self
                  (st4\<lparr>man_dc_counter := Suc (man_dc_counter st4)\<rparr>) list_dc rest)
       | _ \<Rightarrow> Inl AttributeError)"

text \<open>The body of \<^verbatim>\<open>for downloader in done\<close> in \<^verbatim>\<open>DockerFirstStage.run\<close>.\<close>

definition process_download :: "stage \<Rightarrow> builder \<Rightarrow> download_result \<Rightarrow> error + builder" where
  "process_download self st results =
     and_then (save_artifact (db st) results) (\<lambda>(saved_artifact, d).
       let st0 = st\<lparr>db := d\<rparr>;
           content_data = payload results
       in
       and_then (py_get content_data ''mediaType'') (\<lambda>mediatype.
         if py_truthy mediatype then
           and_then (create_tag self st0 mediatype saved_artifact (result_url results))
             (\<lambda>(tag_dc, st1).
                case content (heap st1 tag_dc) of
                  ManifestListTag n m \<Rightarrow>
                    and_then
                      (create_and_process_tagged_manifest_list self st1 tag_dc content_data)
                      (\<lambda>(list_dc, st2).
                         let st3 = put st2 list_dc;
                             st4 = st3\<lparr>list_dc_counter := Suc (list_dc_counter st3)\<rparr>;
                             st5 = set_extra_data st4 tag_dc ''list_relation'' list_dc
                         in
                         case content (heap st5 list_dc) of
                           ManifestList g _ _ \<Rightarrow>
                             (let st6 = set_content st5 tag_dc (ManifestListTag n (Some g)) in
                              and_then (py_get content_data ''manifests'') (\<lambda>ms.
                              and_then (py_iter ms) (\<lambda>manifests.
                              and_then (handle_manifests self st6 list_dc manifests) (\<lambda>st7.
                                Inr (put st7 tag_dc)))))
                         | _ \<Rightarrow> Inl ValueError)
                | ManifestTag n m \<Rightarrow>
                    and_then (create_and_process_tagged_manifest self st1 tag_dc content_data)
                      (\<lambda>(man_dc, st2).
                         let st3 = put st2 man_dc;
                             st4 = st3\<lparr>man_dc_tagged_counter := Suc (man_dc_tagged_counter st3)\<rparr>;
                             st5 = set_extra_data st4 tag_dc ''man_relation'' man_dc
                         in
                         and_then (handle_blobs self st5 man_dc content_data) (\<lambda>st6.
                           Inr (put st6 tag_dc)))
                | _ \<Rightarrow> Inr (put st1 tag_dc))
         else Inr st0))"

fun parse_tags :: "stage \<Rightarrow> builder \<Rightarrow> download_result list \<Rightarrow> error + builder" where
  "parse_tags self st [] = Inr st"
| "parse_tags self st (results # done) =
     and_then (process_download self st results) (\<lambda>st'. parse_tags self st' done)"

text \<open>
  The second pass. A future of a member manifest is resolved by the stages downstream;
  what it resolves to (the digest of the manifest, and the document in its file) is
  given from outside.
\<close>

fun parse_blobs :: "stage \<Rightarrow> builder \<Rightarrow> (json \<times> json) list \<Rightarrow> error + builder" where
  "parse_blobs self st [] = Inr st"
| "parse_blobs self st ((man_digest, content_data) # rest) =
     and_then (py_key man_digest) (\<lambda>k.
       case map_of (man_dcs st) k of
         None \<Rightarrow> Inl KeyError
       | Some man_dc \<Rightarrow>
           and_then (handle_blobs self st man_dc content_data) (\<lambda>st'.
             parse_blobs self st' rest))"

definition put_all :: "builder \<Rightarrow> ref list \<Rightarrow> builder" where
  "put_all st rs = fold (\<lambda>r s. put s r) rs st"

text \<open>
  What the event loop decides: the order in which the downloads finish
  (\<^verbatim>\<open>asyncio.wait\<close>), the order in which the futures are resolved
  (\<^verbatim>\<open>asyncio.as_completed\<close>), and what a future resolves to.
\<close>

record event_loop =
  wait :: "download_result list \<Rightarrow> download_result list"
  as_completed :: "ref list \<Rightarrow> ref list"
  future_result :: "ref \<Rightarrow> json \<times> json"

definition initial :: "db \<Rightarrow> builder" where
  "initial d =
     \<lparr>heap = (\<lambda>r. \<lparr>content = ManifestBlob JNull JNull, d_artifacts = [], extra_data = [],
                    does_batch = True\<rparr>),
      next_ref = 0, db = d, out = [], future_manifests = [], list_dc_counter = 0,
      man_dc_counter = 0, man_dc_tagged_counter = 0, put_later_blob_dc = [], man_dcs = []\<rparr>"

text \<open>
  The tag list: \<^verbatim>\<open>tags_dict['tags']\<close>, which the loops then iterate over (and whose
  \<^verbatim>\<open>len\<close> is taken: the values that have none are those that cannot be iterated).
\<close>

definition tag_list0 :: "json \<Rightarrow> error + json list" where
  "tag_list0 tags_dict = and_then (py_getitem tags_dict ''tags'') py_iter"

text \<open>The downloads that the loop over \<open>tag_list\<close> creates.\<close>

definition to_download :: "stage \<Rightarrow> json list \<Rightarrow> download_result list" where
  "to_download self tag_list =
     map (\<lambda>tag_name. get_downloader (remote self) (manifests_url self tag_name)) tag_list"

definition DockerFirstStage_run :: "stage \<Rightarrow> event_loop \<Rightarrow> db \<Rightarrow> error + builder" where
  "DockerFirstStage_run self loop d =
     (let tags_dict = payload (get_downloader (remote self) (tags_list_url self)) in
      and_then (tag_list0 tags_dict) (\<lambda>tag_list.
      and_then (parse_tags self (initial d) (wait loop (to_download self tag_list))) (\<lambda>st.
      and_then
        (parse_blobs self st (map (future_result loop) (as_completed loop (future_manifests st))))
        (\<lambda>st'. Inr (put_all st' (put_later_blob_dc st'))))))"

section \<open>The other variant of the first stage (\<^verbatim>\<open>sync_stages1.py\<close>)\<close>

text \<open>
  Of the variant, the first two blocks of \<^verbatim>\<open>run\<close>: the tag list, and the loop that
  downloads the manifest of each tag in turn and puts a tag node. The blocks after them
  only add to the queue.
\<close>

record builder1 = world +
  future_tags :: "ref list"

definition create_tag1 ::
  "stage \<Rightarrow> builder1 \<Rightarrow> string \<Rightarrow> json \<Rightarrow> error + (ref \<times> builder1)" where
  "create_tag1 self st tag_name mediatype =
     (let u = manifests_url self (JStr tag_name);
          tag = (if mediatype = JStr (MANIFEST_LIST (MEDIA_TYPE self))
                   then Some (ManifestListTag tag_name None)
                 else if mediatype = JStr (MANIFEST_V2 (MEDIA_TYPE self))
                   then Some (ManifestTag tag_name None)
                 else None);
          manifest_artifact = Artifact JNull None;
          da = DeclarativeArtifact self manifest_artifact u (JStr tag_name)
      in case tag of
           None \<Rightarrow> Inl UnboundLocalError
         | Some t \<Rightarrow>
             Inr (DeclarativeContent st
                    \<lparr>content = t, d_artifacts = [da], extra_data = [], does_batch = False\<rparr>))"

fun parse_tags1 :: "stage \<Rightarrow> builder1 \<Rightarrow> string list \<Rightarrow> error + builder1" where
  "parse_tags1 self st [] = Inr st"
| "parse_tags1 self st (tag_name # tag_list) =
     (let downloader = get_downloader (remote self) (manifests_url self (JStr tag_name));
          content_data = payload downloader
      in
      and_then (py_get content_data ''mediaType'') (\<lambda>mediatype.
        if py_truthy mediatype then
          and_then (create_tag1 self st tag_name mediatype) (\<lambda>(dc, st1).
            let st2 = st1\<lparr>future_tags := future_tags st1 @ [dc]\<rparr> in
            parse_tags1 self (put st2 dc) tag_list)
        else parse_tags1 self st tag_list))"

definition initial1 :: "db \<Rightarrow> builder1" where
  "initial1 d =
     \<lparr>heap = (\<lambda>r. \<lparr>content = ManifestBlob JNull JNull, d_artifacts = [], extra_data = [],
                    does_batch = True\<rparr>),
      next_ref = 0, db = d, out = [], future_tags = []\<rparr>"

text \<open>The tag list the variant works on: the fetched one is read, then overwritten.\<close>

definition tag_list1 :: "json \<Rightarrow> error + string list" where
  "tag_list1 tags_dict =
     and_then (py_getitem tags_dict ''tags'') (\<lambda>tag_list.
       Inr [''musl'', ''latest'', ''glibc'', ''1-musl'', ''1-ubuntu'', ''1.29''])"

definition DockerFirstStage1_run_tags :: "stage \<Rightarrow> db \<Rightarrow> error + builder1" where
  "DockerFirstStage1_run_tags self d =
     (let tags_dict = payload (get_downloader (remote self) (tags_list_url self)) in
      and_then (tag_list1 tags_dict) (\<lambda>tag_list. parse_tags1 self (initial1 d) tag_list))"

section \<open>Auxiliary notions and example worlds\<close>

text \<open>
  The marker that \<open>relate\<close> acts on is the one of a tag: none of the three markers that
  are looked at first is there, and \<open>list_relation\<close> or \<open>man_relation\<close> is.
\<close>

definition tag_marker :: "world \<Rightarrow> ref \<Rightarrow> bool" where
  "tag_marker w dc =
     (let e = extra_data (heap w dc) in
      map_of e ''relation'' = None \<and> map_of e ''blob_relation'' = None \<and>
      map_of e ''config_relation'' = None \<and>
      (map_of e ''list_relation'' \<noteq> None \<or> map_of e ''man_relation'' \<noteq> None))"

text \<open>
  A step leaves the queue, the allocation pointer, and the artifacts and markers of
  every node alone.
\<close>

definition same_shape :: "world \<Rightarrow> world \<Rightarrow> bool" where
  "same_shape w w' \<longleftrightarrow> out w' = out w \<and> next_ref w' = next_ref w \<and>
     (\<forall>r. d_artifacts (heap w' r) = d_artifacts (heap w r) \<and>
          extra_data (heap w' r) = extra_data (heap w r) \<and>
          does_batch (heap w' r) = does_batch (heap w r))"

text \<open>
  A small heap for the examples: a layer blob (0) of the manifest (1), which is a member
  of the list (2); a tag (3) of the manifest and a tag (4) of the list; a config blob (5)
  of a manifest (7) whose \<open>config_blob\<close> is set already; a tag (6) whose target is set
  already.
\<close>

definition node :: "content \<Rightarrow> (string \<times> ref) list \<Rightarrow> dc" where
  "node c e = \<lparr>content = c, d_artifacts = [], extra_data = e, does_batch = True\<rparr>"

definition example_heap :: "ref \<Rightarrow> dc" where
  "example_heap r =
     (if r = 0 then node (ManifestBlob (JStr ''sha256:b'') (JStr ''layer'')) [(''blob_relation'', 1)]
      else if r = 1 then
        node (ImageManifest (JStr ''sha256:m'') (JNum 2) (JStr ''v2'') None) [(''relation'', 2)]
      else if r = 2 then node (ManifestList (JStr ''sha256:l'') (JNum 2) (JStr ''list'')) []
      else if r = 3 then node (ManifestTag ''latest'' None) [(''man_relation'', 1)]
      else if r = 4 then
        node (ManifestListTag ''multi'' (Some (JStr ''sha256:l''))) [(''list_relation'', 2)]
      else if r = 5 then
        node (ManifestBlob (JStr ''sha256:c'') (JStr ''config'')) [(''config_relation'', 7)]
      else if r = 6 then
        node (ManifestTag ''stable'' (Some (JStr ''sha256:m''))) [(''man_relation'', 1)]
      else if r = 7 then
        node (ImageManifest (JStr ''sha256:m'') (JNum 2) (JStr ''v2'') (Some (JStr ''sha256:old''))) []
      else node (ManifestBlob JNull JNull) [])"

definition empty_db :: db where
  "empty_db = \<lparr>Artifact_objects = [], ManifestList_objects = [], ImageManifest_objects = [],
     ManifestBlob_objects = [], ManifestTag_objects = [], ManifestListTag_objects = [],
     BlobManifestBlob_objects = [], ManifestListManifest_objects = []\<rparr>"

text \<open>The store after an earlier run has written the same tags and edges.\<close>

definition synced_db :: db where
  "synced_db = empty_db\<lparr>
     ManifestTag_objects := [ManifestTag ''latest'' (Some (JStr ''sha256:m''))],
     ManifestListTag_objects := [ManifestListTag ''multi'' (Some (JStr ''sha256:l''))],
     BlobManifestBlob_objects := [(JStr ''sha256:m'', JStr ''sha256:b'')],
     ManifestListManifest_objects := [(JStr ''sha256:l'', JStr ''sha256:m'')]\<rparr>"

definition w_fresh :: world where
  "w_fresh = \<lparr>heap = example_heap, next_ref = 8, db = empty_db, out = []\<rparr>"

definition w_synced :: world where
  "w_synced = \<lparr>heap = example_heap, next_ref = 8, db = synced_db, out = []\<rparr>"

text \<open>
  The node that \<open>create_and_process_blob\<close> builds from a descriptor, before it is
  allocated.
\<close>

definition blob_node :: "stage \<Rightarrow> json \<Rightarrow> error + dc" where
  "blob_node self blob_data =
     and_then (py_getitem blob_data ''digest'') (\<lambda>dgst.
     and_then (py_slice_from (length ''sha256:'') dgst) (\<lambda>sha.
     and_then (py_getitem blob_data ''mediaType'') (\<lambda>mt.
       Inr \<lparr>content = ManifestBlob dgst mt,
            d_artifacts = [DeclarativeArtifact self (Artifact sha None) (blobs_url self dgst) dgst],
            extra_data = [], does_batch = True\<rparr>)))"

text \<open>The layers that \<open>include_layer\<close> lets through.\<close>

definition included_layers :: "stage \<Rightarrow> json list \<Rightarrow> json list" where
  "included_layers self layers = filter (\<lambda>layer. include_layer self layer = Inr True) layers"

text \<open>
  The order of emission. A tag node is in order when, as it is put, it carries the
  marker of its kind and the node the marker points at is among the nodes put before it,
  as a manifest (for \<open>man_relation\<close>) or as a manifest list (for \<open>list_relation\<close>).
\<close>

fun is_tag :: "content \<Rightarrow> bool" where
  "is_tag (ManifestTag _ _) = True"
| "is_tag (ManifestListTag _ _) = True"
| "is_tag _ = False"

fun is_manifest :: "content \<Rightarrow> bool" where
  "is_manifest (ImageManifest _ _ _ _) = True"
| "is_manifest _ = False"

fun is_manifest_list :: "content \<Rightarrow> bool" where
  "is_manifest_list (ManifestList _ _ _) = True"
| "is_manifest_list _ = False"

fun is_blob :: "content \<Rightarrow> bool" where
  "is_blob (ManifestBlob _ _) = True"
| "is_blob _ = False"

definition put_before :: "(ref \<times> dc) list \<Rightarrow> (content \<Rightarrow> bool) \<Rightarrow> ref option \<Rightarrow> bool" where
  "put_before earlier kind target =
     (case target of
        None \<Rightarrow> False
      | Some t \<Rightarrow> list_ex (\<lambda>e. fst e = t \<and> kind (content (snd e))) earlier)"

fun tag_after_target :: "(ref \<times> dc) list \<Rightarrow> dc \<Rightarrow> bool" where
  "tag_after_target earlier d =
     (case content d of
        ManifestTag n m \<Rightarrow>
          put_before earlier is_manifest (map_of (extra_data d) ''man_relation'')
      | ManifestListTag n m \<Rightarrow>
          put_before earlier is_manifest_list (map_of (extra_data d) ''list_relation'')
      | _ \<Rightarrow> True)"

fun emitted_in_order :: "(ref \<times> dc) list \<Rightarrow> (ref \<times> dc) list \<Rightarrow> bool" where
  "emitted_in_order earlier [] = True"
| "emitted_in_order earlier (e # q) =
     (tag_after_target earlier (snd e) \<and> emitted_in_order (earlier @ [e]) q)"

text \<open>
  The nodes in \<open>put_later_blob_dc\<close> are allocated nodes whose content is a blob.
\<close>

definition blobs_set_aside :: "builder \<Rightarrow> bool" where
  "blobs_set_aside st \<longleftrightarrow>
     (\<forall>r \<in> set (put_later_blob_dc st). r < next_ref st \<and> is_blob (content (heap st r)))"

text \<open>
  An example registry: the tag list names one tag, and every manifest URL serves the same
  image manifest, with a config and no layers.
\<close>

definition example_media_types :: media_types where
  "example_media_types =
     \<lparr>MANIFEST_V2 = ''manifest.v2+json'', MANIFEST_LIST = ''manifest.list.v2+json'',
      FOREIGN_BLOB = ''foreign.diff.tar.gzip''\<rparr>"

definition example_manifest :: json where
  "example_manifest =
     JObj [(''schemaVersion'', JNum 2), (''mediaType'', JStr ''manifest.v2+json''),
           (''config'', JObj [(''mediaType'', JStr ''container.image.v1+json''),
                             (''digest'', JStr ''sha256:c0'')]),
           (''layers'', JArr [])]"

definition example_downloader :: "string \<Rightarrow> download_result" where
  "example_downloader u =
     (if u = ''http://r/v2/n/tags/list''
      then \<lparr>path = ''/tmp/tags'', result_url = u, artifact_attributes = ''a0'',
            payload = JObj [(''name'', JStr ''n''), (''tags'', JArr [JStr ''latest''])]\<rparr>
      else \<lparr>path = ''/tmp/m'', result_url = u, artifact_attributes = ''a1'',
            payload = example_manifest\<rparr>)"

definition example_remote :: remote where
  "example_remote =
     \<lparr>url = ''http://r'', namespaced_upstream_name = ''n'', include_foreign_layers = False,
      get_downloader = example_downloader\<rparr>"

definition example_stage :: stage where
  "example_stage =
     \<lparr>remote = example_remote, MEDIA_TYPE = example_media_types,
      urljoin = (\<lambda>base rel. base @ rel), py_str = (\<lambda>v. ''?'')\<rparr>"

definition example_loop :: event_loop where
  "example_loop =
     \<lparr>wait = (\<lambda>downloads. downloads), as_completed = (\<lambda>futures. futures),
      future_result = (\<lambda>r. (JNull, JNull))\<rparr>"

text \<open>
  The three statements that \<open>handle_blobs\<close> runs for a blob, once the node is built: the
  node is allocated, the marker is set on it, and it is appended to \<open>put_later_blob_dc\<close>.
\<close>

definition set_aside :: "builder \<Rightarrow> dc \<Rightarrow> string \<Rightarrow> ref \<Rightarrow> builder" where
  "set_aside st d k man =
     (let (blob_dc, st2) = DeclarativeContent st d;
          st3 = set_extra_data st2 blob_dc k man
      in st3\<lparr>put_later_blob_dc := put_later_blob_dc st3 @ [blob_dc]\<rparr>)"

text \<open>
  A manifest with a foreign layer and an ordinary one; the config carries the foreign
  media type as well. And one without a config.
\<close>

definition example_foreign_manifest :: json where
  "example_foreign_manifest =
     JObj [(''schemaVersion'', JNum 2), (''mediaType'', JStr ''manifest.v2+json''),
           (''config'', JObj [(''mediaType'', JStr ''foreign.diff.tar.gzip''),
                             (''digest'', JStr ''sha256:c1'')]),
           (''layers'', JArr [JObj [(''mediaType'', JStr ''foreign.diff.tar.gzip''),
                                   (''digest'', JStr ''sha256:f1'')],
                             JObj [(''mediaType'', JStr ''rootfs.diff.tar.gzip''),
                                   (''digest'', JStr ''sha256:l1'')]])]"

definition example_manifest_without_config :: json where
  "example_manifest_without_config =
     JObj [(''schemaVersion'', JNum 2), (''mediaType'', JStr ''manifest.v2+json''),
           (''layers'', JArr [])]"

definition example_result :: "json \<Rightarrow> download_result" where
  "example_result document =
     \<lparr>path = ''/tmp/m'', result_url = ''http://r/v2/n/manifests/latest'',
      artifact_attributes = ''a1'', payload = document\<rparr>"

section \<open>Basic facts\<close>

lemma and_then_Inr [simp]: "and_then (Inr x) f = f x"
  by (simp add: and_then_def)

lemma and_then_Inl [simp]: "and_then (Inl e) f = Inl e"
  by (simp add: and_then_def)

lemma and_then_eq_Inr: "and_then r f = Inr y \<longleftrightarrow> (\<exists>x. r = Inr x \<and> f x = Inr y)"
  by (cases r) simp_all

lemma and_then_eq_Inl: "and_then r f = Inl e \<longleftrightarrow> r = Inl e \<or> (\<exists>x. r = Inr x \<and> f x = Inl e)"
  by (cases r) simp_all

lemma tolerate_Inr:
  "(case r of Inr d \<Rightarrow> Inr (f d) | Inl e \<Rightarrow> if e = IntegrityError then g else Inl e) = Inr w'
   \<longleftrightarrow> (\<exists>d. r = Inr d \<and> f d = w') \<or> (r = Inl IntegrityError \<and> g = Inr w')"
  by (cases r) auto


lemma heap_set_content: "heap (set_content w r c) = (heap w)(r := (heap w r)\<lparr>content := c\<rparr>)"
  by (simp add: set_content_def)

lemma db_set_content [simp]: "db (set_content w r c) = db w"
  by (simp add: set_content_def)

lemmas example_defs =
  w_fresh_def w_synced_def example_heap_def node_def empty_db_def synced_db_def

section \<open>The relation writes under a uniqueness conflict\<close>














section \<open>What a relation step changes\<close>

lemma same_shape_refl [simp]: "same_shape w w"
  by (simp add: same_shape_def)

lemma same_shape_db [simp]: "same_shape w (w'\<lparr>db := d\<rparr>) = same_shape w w'"
  by (simp add: same_shape_def)

lemma same_shape_set_content [simp]: "same_shape w (set_content w' r c) = same_shape w w'"
  by (auto simp add: same_shape_def set_content_def)

lemma relate_blob_shape: "relate_blob w dc = Inr w' \<Longrightarrow> same_shape w w' \<and> heap w' = heap w"
  unfolding relate_blob_def
  by (cases "map_of (extra_data (heap w dc)) ''blob_relation''")
     (auto simp: and_then_eq_Inr tolerate_Inr)

lemma relate_manifest_to_list_shape:
  "relate_manifest_to_list w dc = Inr w' \<Longrightarrow> same_shape w w' \<and> heap w' = heap w"
  unfolding relate_manifest_to_list_def
  by (cases "map_of (extra_data (heap w dc)) ''relation''")
     (auto simp: and_then_eq_Inr tolerate_Inr)

lemma relate_config_blob_shape:
  assumes "relate_config_blob w dc = Inr w'"
  shows "same_shape w w' \<and> heap w' dc = heap w dc"
proof (cases "map_of (extra_data (heap w dc)) ''config_relation''")
  case None
  with assms show ?thesis by (simp add: relate_config_blob_def)
next
  case (Some m)
  show ?thesis
  proof (cases "content (heap w m)")
    case (ImageManifest g v t c)
    then show ?thesis using assms Some
      by (cases "content (heap w dc)")
         (auto simp: relate_config_blob_def Let_def heap_set_content and_then_eq_Inr)
  qed (use assms Some in \<open>auto simp: relate_config_blob_def and_then_eq_Inr split: if_splits\<close>)
qed

lemma relate_manifest_shape:
  assumes "relate_manifest w dc = Inr w'"
  shows "same_shape w w'"
proof (cases "content (heap w dc)")
  case (ManifestTag n m)
  show ?thesis
  proof (cases "map_of (extra_data (heap w dc)) ''man_relation''")
    case None
    with assms ManifestTag show ?thesis
      by (simp add: relate_manifest_def split: if_splits)
  next
    case (Some r)
    show ?thesis
    proof (cases "content (heap w r)")
      case (ImageManifest g v t c)
      have ne: "r \<noteq> dc"
        using ImageManifest ManifestTag by auto
      show ?thesis using assms ManifestTag Some ImageManifest ne
        by (auto simp: relate_manifest_def Let_def heap_set_content tolerate_Inr and_then_eq_Inr
                 split: if_splits)
    qed (use assms ManifestTag Some in \<open>auto simp: relate_manifest_def split: if_splits\<close>)
  qed
qed (use assms in \<open>auto simp: relate_manifest_def\<close>)

lemma relate_manifest_list_shape:
  assumes "relate_manifest_list w dc = Inr w'"
  shows "same_shape w w'"
proof (cases "save (db w) (content (heap w dc))")
  case (Inr d)
  with assms show ?thesis by (auto simp add: relate_manifest_list_def)
next
  case (Inl e)
  with assms have e: "e = IntegrityError"
    by (auto simp: relate_manifest_list_def split: if_splits)
  from assms Inl e obtain n where n: "content_name (content (heap w dc)) = Inr n"
    by (cases "content_name (content (heap w dc))") (auto simp: relate_manifest_list_def)
  from assms Inl e n obtain r where r: "map_of (extra_data (heap w dc)) ''list_relation'' = Some r"
    by (cases "map_of (extra_data (heap w dc)) ''list_relation''")
       (auto simp: relate_manifest_list_def)
  show ?thesis using assms Inl e n r
    by (cases "content (heap w r)") (auto simp: relate_manifest_list_def and_then_eq_Inr)
qed

lemma relate_shape:
  "relate w dc = Inr w' \<Longrightarrow>
     same_shape w w' \<and> (\<not> tag_marker w dc \<longrightarrow> heap w' dc = heap w dc)"
  unfolding relate_def tag_marker_def Let_def
  by (auto split: if_splits
           dest: relate_blob_shape relate_manifest_to_list_shape relate_config_blob_shape
                 relate_manifest_shape relate_manifest_list_shape)

lemma run_append:
  "InterrelateContent_run w (xs @ ys) =
     and_then (InterrelateContent_run w xs) (\<lambda>w1. InterrelateContent_run w1 ys)"
proof (induction xs arbitrary: w)
  case Nil
  show ?case by simp
next
  case (Cons x xs)
  show ?case by (cases "relate w x") (simp_all add: Cons.IH)
qed

lemma run_out:
  "InterrelateContent_run w items = Inr w' \<Longrightarrow> \<exists>ys. out w' = out w @ ys \<and> map fst ys = items"
proof (induction items arbitrary: w)
  case Nil
  thus ?case by simp
next
  case (Cons x xs)
  from Cons.prems obtain w1 where r: "relate w x = Inr w1"
    and rest: "InterrelateContent_run (put w1 x) xs = Inr w'"
    by (auto simp: and_then_eq_Inr)
  from relate_shape [OF r] have sh: "same_shape w w1" by simp
  from Cons.IH [OF rest] obtain ys where ys: "out w' = out (put w1 x) @ ys" "map fst ys = xs"
    by blast
  have "out w' = out w @ ((x, heap w1 x) # ys)"
    using ys sh by (simp add: put_def same_shape_def)
  moreover have "map fst ((x, heap w1 x) # ys) = x # xs"
    using ys by simp
  ultimately show ?case
    by (intro exI [of _ "(x, heap w1 x) # ys"] conjI)
qed

lemma run_nth:
  assumes run: "InterrelateContent_run w items = Inr w'" and i: "i < length items"
  shows "\<exists>wi. InterrelateContent_run w (take i items) = Inr wi \<and>
           d_artifacts (snd (out w' ! (length (out w) + i))) = d_artifacts (heap wi (items ! i)) \<and>
           extra_data (snd (out w' ! (length (out w) + i))) = extra_data (heap wi (items ! i)) \<and>
           (\<not> tag_marker wi (items ! i) \<longrightarrow>
              snd (out w' ! (length (out w) + i)) = heap wi (items ! i))"
proof -
  let ?x = "items ! i"
  have split: "items = take i items @ ?x # drop (Suc i) items"
    using i by (simp add: id_take_nth_drop)
  from run have "and_then (InterrelateContent_run w (take i items))
       (\<lambda>w1. InterrelateContent_run w1 (?x # drop (Suc i) items)) = Inr w'"
    using run_append [of w "take i items" "?x # drop (Suc i) items"] split by simp
  then obtain wi where wi: "InterrelateContent_run w (take i items) = Inr wi"
    and rest: "InterrelateContent_run wi (?x # drop (Suc i) items) = Inr w'"
    by (auto simp: and_then_eq_Inr)
  from rest obtain w1 where r: "relate wi ?x = Inr w1"
    and rest': "InterrelateContent_run (put w1 ?x) (drop (Suc i) items) = Inr w'"
    by (auto simp: and_then_eq_Inr)
  from run_out [OF wi] obtain ys where ys: "out wi = out w @ ys" "map fst ys = take i items"
    by blast
  hence len: "length ys = i"
    using i by (metis length_map length_take min.absorb2 less_imp_le)
  from relate_shape [OF r] have sh: "same_shape wi w1"
    and keep: "\<not> tag_marker wi ?x \<longrightarrow> heap w1 ?x = heap wi ?x" by simp_all
  from run_out [OF rest'] obtain zs where zs: "out w' = out (put w1 ?x) @ zs" by blast
  have "out w' = (out w @ ys) @ (?x, heap w1 ?x) # zs"
    using zs sh ys by (simp add: put_def same_shape_def)
  hence nth: "out w' ! (length (out w) + i) = (?x, heap w1 ?x)"
    using len by (metis length_append nth_append_length)
  show ?thesis using wi nth keep sh by (auto simp: same_shape_def)
qed

section \<open>Setting a field that is set already\<close>

lemma relate_manifest_asserts:
  "content (heap w dc) = ManifestTag n (Some g) \<Longrightarrow> relate_manifest w dc = Inl AssertionError"
  by (simp add: relate_manifest_def)

lemma relate_config_blob_overwrites:
  assumes "map_of (extra_data (heap w dc)) ''config_relation'' = Some m"
    and "content (heap w m) = ImageManifest g v t c"
    and "content (heap w dc) = ManifestBlob b bt"
  shows "\<exists>w'. relate_config_blob w dc = Inr w' \<and> content (heap w' m) = ImageManifest g v t (Some b)"
  using assms by (simp add: relate_config_blob_def Let_def heap_set_content)

lemma save_not_assertion: "save d c \<noteq> Inl AssertionError"
  by (cases c) simp_all

lemma relate_config_blob_no_assertion: "relate_config_blob w dc \<noteq> Inl AssertionError"
proof (cases "map_of (extra_data (heap w dc)) ''config_relation''")
  case None
  then show ?thesis by (simp add: relate_config_blob_def)
next
  case (Some m)
  show ?thesis
  proof (cases "content (heap w m)")
    case (ImageManifest g v t c)
    then show ?thesis using Some
      by (cases "content (heap w dc)")
         (simp_all add: relate_config_blob_def Let_def heap_set_content)
  qed (use Some save_not_assertion in \<open>auto simp: relate_config_blob_def and_then_eq_Inl split: if_splits\<close>)
qed

lemma relate_manifest_list_no_assertion: "relate_manifest_list w dc \<noteq> Inl AssertionError"
proof (cases "save (db w) (content (heap w dc))")
  case (Inr d)
  then show ?thesis by (simp add: relate_manifest_list_def)
next
  case (Inl e)
  show ?thesis
  proof (cases "e = IntegrityError")
    case False
    with Inl save_not_assertion [of "db w" "content (heap w dc)"] show ?thesis
      by (simp add: relate_manifest_list_def)
  next
    case True
    have n: "content_name (content (heap w dc)) \<noteq> Inl AssertionError"
      by (cases "content (heap w dc)") simp_all
    have g: "\<And>n g. ManifestListTag_get (db w) n g \<noteq> Inl AssertionError"
      by (simp add: ManifestListTag_get_def split: option.splits)
    show ?thesis using Inl True n g
      by (auto simp: relate_manifest_list_def and_then_eq_Inl split: option.splits content.splits)
  qed
qed

text \<open>
  C4, as the code has it. Of the steps that concern a single-valued field, only
  \<open>relate_manifest\<close> guards it: with the target of the manifest tag set already, the step
  fails with an assertion failure. \<open>relate_config_blob\<close> sets \<open>config_blob\<close> of the
  manifest to the blob whatever the field held, and never fails with an assertion
  failure. \<open>relate_manifest_list\<close> neither checks nor sets the target of the list tag (the
  first stage has set it): when the save goes through, the node is as before, whether
  the target was set or not, and the step never fails with an assertion failure.
\<close>

theorem only_the_manifest_tag_target_is_guarded:
  "(\<forall>n g. content (heap w dc) = ManifestTag n (Some g)
       \<longrightarrow> relate_manifest w dc = Inl AssertionError) \<and>
   (\<forall>m g v t c b bt. map_of (extra_data (heap w dc)) ''config_relation'' = Some m \<and>
       content (heap w m) = ImageManifest g v t c \<and> content (heap w dc) = ManifestBlob b bt
       \<longrightarrow> (\<exists>w'. relate_config_blob w dc = Inr w' \<and>
                 content (heap w' m) = ImageManifest g v t (Some b))) \<and>
   relate_config_blob w dc \<noteq> Inl AssertionError \<and>
   (\<forall>d. save (db w) (content (heap w dc)) = Inr d
       \<longrightarrow> relate_manifest_list w dc = Inr (w\<lparr>db := d\<rparr>)) \<and>
   relate_manifest_list w dc \<noteq> Inl AssertionError"
proof -
  have "\<forall>d. save (db w) (content (heap w dc)) = Inr d
       \<longrightarrow> relate_manifest_list w dc = Inr (w\<lparr>db := d\<rparr>)"
    by (simp add: relate_manifest_list_def)
  then show ?thesis
    using relate_manifest_asserts [of w dc] relate_config_blob_overwrites [of w dc]
      relate_config_blob_no_assertion [of w dc] relate_manifest_list_no_assertion [of w dc]
    by blast
qed

theorem only_the_manifest_tag_target_is_guarded_witness:
  "relate_manifest w_fresh 6 = Inl AssertionError \<and>
   (\<exists>w'. relate_config_blob w_fresh 5 = Inr w' \<and>
      content (heap w' 7) =
        ImageManifest (JStr ''sha256:m'') (JNum 2) (JStr ''v2'') (Some (JStr ''sha256:c''))) \<and>
   relate_manifest_list w_fresh 4 =
     Inr (w_fresh\<lparr>db := empty_db\<lparr>ManifestListTag_objects :=
            [ManifestListTag ''multi'' (Some (JStr ''sha256:l''))]\<rparr>\<rparr>)"
proof -
  have a: "content (heap w_fresh 6) = ManifestTag ''stable'' (Some (JStr ''sha256:m''))"
    by (simp add: example_defs)
  have b: "map_of (extra_data (heap w_fresh 5)) ''config_relation'' = Some 7 \<and>
      content (heap w_fresh 7) =
        ImageManifest (JStr ''sha256:m'') (JNum 2) (JStr ''v2'') (Some (JStr ''sha256:old'')) \<and>
      content (heap w_fresh 5) = ManifestBlob (JStr ''sha256:c'') (JStr ''config'')"
    by (simp add: example_defs)
  have c: "save (db w_fresh) (content (heap w_fresh 4)) =
      Inr (empty_db\<lparr>ManifestListTag_objects :=
            [ManifestListTag ''multi'' (Some (JStr ''sha256:l''))]\<rparr>)"
    by (simp add: example_defs)
  from only_the_manifest_tag_target_is_guarded [of w_fresh 6] a
  have 1: "relate_manifest w_fresh 6 = Inl AssertionError" by blast
  from only_the_manifest_tag_target_is_guarded [of w_fresh 5] b
  have 2: "\<exists>w'. relate_config_blob w_fresh 5 = Inr w' \<and>
      content (heap w' 7) =
        ImageManifest (JStr ''sha256:m'') (JNum 2) (JStr ''v2'') (Some (JStr ''sha256:c''))"
    by blast
  from only_the_manifest_tag_target_is_guarded [of w_fresh 4] c
  have 3: "relate_manifest_list w_fresh 4 =
     Inr (w_fresh\<lparr>db := empty_db\<lparr>ManifestListTag_objects :=
            [ManifestListTag ''multi'' (Some (JStr ''sha256:l''))]\<rparr>\<rparr>)"
    by blast
  from 1 2 3 show ?thesis by blast
qed

text \<open>
  The claim as stated fails: the manifest (7) has its \<open>config_blob\<close> set, and relating
  the config blob (5) to it overwrites the field and returns normally; the list tag (4)
  has its target set, and relating it returns normally as well.
\<close>

theorem set_twice_is_not_refused_counterexample:
  "config_blob (content (heap w_fresh 7)) = Some (JStr ''sha256:old'') \<and>
   relate_config_blob w_fresh 5 =
     Inr ((set_content w_fresh 7
            (ImageManifest (JStr ''sha256:m'') (JNum 2) (JStr ''v2'') (Some (JStr ''sha256:c''))))
          \<lparr>db := empty_db\<lparr>ImageManifest_objects :=
             [ImageManifest (JStr ''sha256:m'') (JNum 2) (JStr ''v2'')
                (Some (JStr ''sha256:c''))]\<rparr>\<rparr>) \<and>
   manifest_list (content (heap w_fresh 4)) = Some (JStr ''sha256:l'') \<and>
   relate_manifest_list w_fresh 4 =
     Inr (w_fresh\<lparr>db := empty_db\<lparr>ManifestListTag_objects :=
            [ManifestListTag ''multi'' (Some (JStr ''sha256:l''))]\<rparr>\<rparr>)"
  by (simp add: relate_config_blob_def relate_manifest_list_def example_defs set_content_def)

section \<open>The relating stage as a pass-through\<close>

text \<open>
  C6, as the code has it. When no relation step raises, every node of the input queue is
  put on the output queue once, in the order of the input. The node is put with the
  artifacts and markers it had when it was taken from the input; it is put as it was
  then, content included, unless the marker acted on is that of a tag (for which the
  step sets the target or replaces the content by the existing row).
\<close>

theorem resolver_forwards_every_node_once:
  assumes "InterrelateContent_run w items = Inr w'"
  shows "map fst (out w') = map fst (out w) @ items \<and>
    (\<forall>i < length items. \<exists>wi.
       InterrelateContent_run w (take i items) = Inr wi \<and>
       d_artifacts (snd (out w' ! (length (out w) + i))) = d_artifacts (heap wi (items ! i)) \<and>
       extra_data (snd (out w' ! (length (out w) + i))) = extra_data (heap wi (items ! i)) \<and>
       (\<not> tag_marker wi (items ! i) \<longrightarrow>
          snd (out w' ! (length (out w) + i)) = heap wi (items ! i)))"
proof -
  from run_out [OF assms] have "map fst (out w') = map fst (out w) @ items"
    by auto
  moreover have "\<forall>i < length items. \<exists>wi.
       InterrelateContent_run w (take i items) = Inr wi \<and>
       d_artifacts (snd (out w' ! (length (out w) + i))) = d_artifacts (heap wi (items ! i)) \<and>
       extra_data (snd (out w' ! (length (out w) + i))) = extra_data (heap wi (items ! i)) \<and>
       (\<not> tag_marker wi (items ! i) \<longrightarrow>
          snd (out w' ! (length (out w) + i)) = heap wi (items ! i))"
    using run_nth [OF assms] by blast
  ultimately show ?thesis by blast
qed

theorem resolver_forwards_every_node_once_witness:
  "\<exists>w'. InterrelateContent_run w_fresh [0, 5] = Inr w' \<and>
      map fst (out w') = [0, 5] \<and>
      snd (out w' ! 0) = heap w_fresh 0 \<and> snd (out w' ! 1) = heap w_fresh 5"
proof -
  have step0: "InterrelateContent_run w_fresh [0] =
      Inr (put (w_fresh\<lparr>db := empty_db\<lparr>BlobManifestBlob_objects :=
             [(JStr ''sha256:m'', JStr ''sha256:b'')]\<rparr>\<rparr>) 0)"
    by (simp add: relate_def relate_blob_def example_defs BlobManifestBlob_save_def)
  obtain w' where run: "InterrelateContent_run w_fresh [0, 5] = Inr w'"
    by (simp add: relate_def relate_blob_def relate_config_blob_def example_defs
          BlobManifestBlob_save_def put_def set_content_def)
  note main = resolver_forwards_every_node_once [OF run]
  from main have fst: "map fst (out w') = [0, 5]"
    by (simp add: example_defs)
  from main have "\<exists>wi. InterrelateContent_run w_fresh (take 0 [0, 5]) = Inr wi \<and>
       (\<not> tag_marker wi ([0, 5] ! 0) \<longrightarrow>
          snd (out w' ! (length (out w_fresh) + 0)) = heap wi ([0, 5] ! 0))"
    by auto
  hence n0: "snd (out w' ! 0) = heap w_fresh 0"
    by (simp add: tag_marker_def example_defs)
  from main have "\<exists>wi. InterrelateContent_run w_fresh (take 1 [0, 5]) = Inr wi \<and>
       (\<not> tag_marker wi ([0, 5] ! 1) \<longrightarrow>
          snd (out w' ! (length (out w_fresh) + 1)) = heap wi ([0, 5] ! 1))"
    by auto
  hence n1: "snd (out w' ! 1) = heap w_fresh 5"
    using step0 by (simp add: tag_marker_def example_defs put_def)
  from run fst n0 n1 show ?thesis
    by (intro exI [of _ w'] conjI)
qed

text \<open>
  The claim as stated fails. The tag (3) is put with a content that differs from the one
  it was consumed with; the tag (6), whose target is set already, is consumed and never
  put, the run ending in the assertion failure.
\<close>

theorem forwarded_unchanged_counterexample:
  "InterrelateContent_run w_fresh [3] =
     Inr ((set_content w_fresh 3 (ManifestTag ''latest'' (Some (JStr ''sha256:m''))))
          \<lparr>db := empty_db\<lparr>ManifestTag_objects :=
                  [ManifestTag ''latest'' (Some (JStr ''sha256:m''))]\<rparr>,
            out := [(3, node (ManifestTag ''latest'' (Some (JStr ''sha256:m'')))
                          [(''man_relation'', 1)])]\<rparr>) \<and>
   node (ManifestTag ''latest'' (Some (JStr ''sha256:m''))) [(''man_relation'', 1)]
     \<noteq> heap w_fresh 3 \<and>
   InterrelateContent_run w_fresh [6] = Inl AssertionError"
  by (simp add: relate_def relate_manifest_def example_defs set_content_def put_def)

section \<open>Blobs: the filter on the layers, and the config\<close>

lemma create_and_process_blob_eq:
  "create_and_process_blob self st man b =
     and_then (blob_node self b) (\<lambda>d. Inr (DeclarativeContent st d))"
proof (cases "py_getitem b ''digest''")
  case (Inl e)
  then show ?thesis by (simp add: create_and_process_blob_def blob_node_def)
next
  case (Inr dgst)
  then show ?thesis
    by (cases "py_slice_from (length ''sha256:'') dgst"; cases "py_getitem b ''mediaType''")
       (simp_all add: create_and_process_blob_def blob_node_def)
qed

lemma set_aside_simps [simp]:
  "next_ref (set_aside st d k man) = Suc (next_ref st)"
  "heap (set_aside st d k man) =
     (heap st)(next_ref st := d\<lparr>extra_data := AList.update k man (extra_data d)\<rparr>)"
  "put_later_blob_dc (set_aside st d k man) = put_later_blob_dc st @ [next_ref st]"
  "out (set_aside st d k man) = out st"
  "db (set_aside st d k man) = db st"
  "future_manifests (set_aside st d k man) = future_manifests st"
  "man_dcs (set_aside st d k man) = man_dcs st"
  "list_dc_counter (set_aside st d k man) = list_dc_counter st"
  "man_dc_counter (set_aside st d k man) = man_dc_counter st"
  "man_dc_tagged_counter (set_aside st d k man) = man_dc_tagged_counter st"
  by (simp_all add: set_aside_def DeclarativeContent_def set_extra_data_def)

lemma handle_layers_Cons:
  "handle_layers self st man (layer # layers) =
     and_then (include_layer self layer) (\<lambda>inc.
       if \<not> inc then handle_layers self st man layers
       else and_then (blob_node self layer) (\<lambda>d.
         handle_layers self (set_aside st d ''blob_relation'' man) man layers))"
proof (cases "include_layer self layer")
  case (Inl e) then show ?thesis by simp
next
  case (Inr inc)
  show ?thesis
  proof (cases "blob_node self layer")
    case (Inl e)
    with Inr show ?thesis by (simp add: create_and_process_blob_eq)
  next
    case d: (Inr d)
    with Inr show ?thesis
      by (simp add: create_and_process_blob_eq set_aside_def Let_def split: prod.split)
  qed
qed

lemma handle_blobs_eq:
  "handle_blobs self st man content_data =
     and_then (py_get content_data ''layers'') (\<lambda>ls.
     and_then (py_iter ls) (\<lambda>layers.
     and_then (handle_layers self st man layers) (\<lambda>st1.
     and_then (py_get content_data ''config'') (\<lambda>layer.
     and_then (blob_node self layer) (\<lambda>d.
       Inr (set_aside st1 d ''config_relation'' man))))))"
proof -
  have "\<And>st1 layer. and_then (create_and_process_blob self st1 man layer) (\<lambda>(blob_dc, st2).
       let st3 = set_extra_data st2 blob_dc ''config_relation'' man in
       Inr (st3\<lparr>put_later_blob_dc := put_later_blob_dc st3 @ [blob_dc]\<rparr>))
     = and_then (blob_node self layer) (\<lambda>d. Inr (set_aside st1 d ''config_relation'' man))"
    subgoal for st1 layer
      by (cases "blob_node self layer")
         (simp_all add: create_and_process_blob_eq set_aside_def Let_def split: prod.split)
    done
  then show ?thesis by (simp add: handle_blobs_def)
qed

lemma blob_node_extra: "blob_node self b = Inr d \<Longrightarrow> extra_data d = [] \<and> is_blob (content d)"
  by (auto simp: blob_node_def and_then_eq_Inr)


lemma handle_layers_spec:
  "handle_layers self st man layers = Inr st' \<Longrightarrow>
     next_ref st' = next_ref st + length (included_layers self layers) \<and>
     put_later_blob_dc st' = put_later_blob_dc st @
        [next_ref st ..< next_ref st + length (included_layers self layers)] \<and>
     (\<forall>i < length (included_layers self layers). \<exists>d.
         blob_node self (included_layers self layers ! i) = Inr d \<and>
         heap st' (next_ref st + i) = d\<lparr>extra_data := [(''blob_relation'', man)]\<rparr>) \<and>
     (\<forall>r < next_ref st. heap st' r = heap st r) \<and>
     out st' = out st \<and> db st' = db st \<and> future_manifests st' = future_manifests st \<and>
     man_dcs st' = man_dcs st"
proof (induction layers arbitrary: st)
  case Nil
  then show ?case by (simp add: included_layers_def)
next
  case (Cons layer layers)
  from Cons.prems have prem: "and_then (include_layer self layer) (\<lambda>inc.
       if \<not> inc then handle_layers self st man layers
       else and_then (blob_node self layer) (\<lambda>d.
         handle_layers self (set_aside st d ''blob_relation'' man) man layers)) = Inr st'"
    by (simp only: handle_layers_Cons)
  then obtain inc where inc: "include_layer self layer = Inr inc"
    by (auto simp: and_then_eq_Inr)
  show ?case
  proof (cases inc)
    case False
    with inc prem have "handle_layers self st man layers = Inr st'"
      by simp
    from Cons.IH [OF this] inc False show ?thesis
      by (simp add: included_layers_def)
  next
    case True
    with inc prem obtain d where d: "blob_node self layer = Inr d"
      and rest: "handle_layers self (set_aside st d ''blob_relation'' man) man layers = Inr st'"
      by (auto simp: and_then_eq_Inr)
    let ?n = "next_ref st"
    let ?ks = "included_layers self layers"
    have ks: "included_layers self (layer # layers) = layer # ?ks"
      using inc True by (simp add: included_layers_def)
    note IH = Cons.IH [OF rest]
    have d': "d\<lparr>extra_data := AList.update ''blob_relation'' man (extra_data d)\<rparr>
        = d\<lparr>extra_data := [(''blob_relation'', man)]\<rparr>"
      using blob_node_extra [OF d] by simp
    have a: "next_ref st' = ?n + length (layer # ?ks)"
      using IH by simp
    have upt: "[?n ..< ?n + length (layer # ?ks)] = ?n # [Suc ?n ..< Suc ?n + length ?ks]"
      by (subst upt_rec) simp
    have b: "put_later_blob_dc st' = put_later_blob_dc st @ [?n ..< ?n + length (layer # ?ks)]"
      using IH unfolding upt by simp
    have old: "\<forall>r < Suc ?n. heap st' r =
        ((heap st)(?n := d\<lparr>extra_data := [(''blob_relation'', man)]\<rparr>)) r"
      using IH d' by simp
    have c: "\<forall>i < length (layer # ?ks). \<exists>d.
         blob_node self ((layer # ?ks) ! i) = Inr d \<and>
         heap st' (?n + i) = d\<lparr>extra_data := [(''blob_relation'', man)]\<rparr>"
    proof (intro allI impI)
      fix i assume i: "i < length (layer # ?ks)"
      show "\<exists>d. blob_node self ((layer # ?ks) ! i) = Inr d \<and>
         heap st' (?n + i) = d\<lparr>extra_data := [(''blob_relation'', man)]\<rparr>"
      proof (cases i)
        case 0
        with d old show ?thesis by simp
      next
        case (Suc j)
        with i IH show ?thesis by simp
      qed
    qed
    have e: "\<forall>r < ?n. heap st' r = heap st r"
      using old by simp
    show ?thesis using a b c e IH unfolding ks by simp
  qed
qed


lemma handle_blobs_spec:
  assumes "handle_blobs self st man content_data = Inr st'"
  shows "\<exists>ls layers cfg d.
      py_get content_data ''layers'' = Inr ls \<and> py_iter ls = Inr layers \<and>
      py_get content_data ''config'' = Inr cfg \<and> blob_node self cfg = Inr d \<and>
      put_later_blob_dc st' = put_later_blob_dc st @
        [next_ref st ..< next_ref st + length (included_layers self layers)] @
        [next_ref st + length (included_layers self layers)] \<and>
      (\<forall>i < length (included_layers self layers). \<exists>b.
         blob_node self (included_layers self layers ! i) = Inr b \<and>
         heap st' (next_ref st + i) = b\<lparr>extra_data := [(''blob_relation'', man)]\<rparr>) \<and>
      heap st' (next_ref st + length (included_layers self layers)) =
        d\<lparr>extra_data := [(''config_relation'', man)]\<rparr> \<and>
      next_ref st' = Suc (next_ref st + length (included_layers self layers)) \<and>
      (\<forall>r < next_ref st. heap st' r = heap st r) \<and> out st' = out st"
proof -
  from assms obtain ls layers st1 cfg d where
    ls: "py_get content_data ''layers'' = Inr ls" and layers: "py_iter ls = Inr layers"
    and hl: "handle_layers self st man layers = Inr st1"
    and cfg: "py_get content_data ''config'' = Inr cfg" and d: "blob_node self cfg = Inr d"
    and st': "st' = set_aside st1 d ''config_relation'' man"
    unfolding handle_blobs_eq by (auto simp: and_then_eq_Inr)
  note spec = handle_layers_spec [OF hl]
  have d': "d\<lparr>extra_data := AList.update ''config_relation'' man (extra_data d)\<rparr>
        = d\<lparr>extra_data := [(''config_relation'', man)]\<rparr>"
    using blob_node_extra [OF d] by simp
  show ?thesis
    apply (rule exI [of _ ls], rule exI [of _ layers], rule exI [of _ cfg], rule exI [of _ d])
    using ls layers cfg d spec d' unfolding st' by simp
qed


lemmas registry_defs = example_stage_def example_remote_def example_downloader_def
  example_manifest_def example_media_types_def example_loop_def example_result_def
  example_foreign_manifest_def example_manifest_without_config_def


lemmas stage_defs = DockerFirstStage_run_def tag_list0_def to_download_def initial_def
  process_download_def save_artifact_def Artifact_save_def Artifact_get_def create_tag_def
  create_and_process_tagged_manifest_def create_and_process_blob_def tag_digest_def
  handle_blobs_def manifests_url_def blobs_url_def tags_list_url_def format_arg_def
  DeclarativeContent_def DeclarativeArtifact_def V2_ACCEPT_HEADERS_def set_extra_data_def
  put_def put_all_def include_layer_def last_segment_def set_content_def



section \<open>A payload without a media type, or with one that is not supported\<close>

lemma save_artifact_total:
  "\<exists>a d. save_artifact dbs results = Inr (a, d) \<and> sha256 a = JStr (artifact_attributes results) \<and>
     (d = dbs \<or> d = dbs\<lparr>Artifact_objects := Artifact_objects dbs @
              [Artifact (JStr (artifact_attributes results)) (Some (path results))]\<rparr>)"
proof (cases "\<exists>x \<in> set (Artifact_objects dbs). sha256 x = JStr (artifact_attributes results)")
  case False
  then show ?thesis by (simp add: save_artifact_def Artifact_save_def Let_def)
next
  case True
  then obtain x where "find (\<lambda>x. sha256 x = JStr (artifact_attributes results)) (Artifact_objects dbs) = Some x"
    by (cases "find (\<lambda>x. sha256 x = JStr (artifact_attributes results)) (Artifact_objects dbs)")
       (auto simp: find_None_iff)
  moreover from this have "sha256 x = JStr (artifact_attributes results)"
    by (auto simp: find_Some_iff)
  ultimately show ?thesis using True
    by (simp add: save_artifact_def Artifact_save_def Artifact_get_def Let_def)
qed


lemma parse_tags_append:
  "parse_tags self st (xs @ ys) =
     and_then (parse_tags self st xs) (\<lambda>st1. parse_tags self st1 ys)"
proof (induction xs arbitrary: st)
  case Nil
  show ?case by simp
next
  case (Cons x xs)
  show ?case by (cases "process_download self st x") (simp_all add: Cons.IH)
qed



text \<open>
  C9. A document whose \<open>mediaType\<close> is there and true in a condition (so, for a string,
  not empty), and is neither of the two supported media types, passes the guard of the
  loop; \<open>create_tag\<close> then fails with \<^verbatim>\<open>UnboundLocalError\<close>, and with it the processing
  of the download and the loop, however many downloads were processed before it.
\<close>

theorem unsupported_media_type_aborts_the_run:
  assumes "payload results = JObj kvs" and "map_of kvs ''mediaType'' = Some mt"
    and "py_truthy mt"
    and "mt \<noteq> JStr (MANIFEST_V2 (MEDIA_TYPE self))"
    and "mt \<noteq> JStr (MANIFEST_LIST (MEDIA_TYPE self))"
  shows "create_tag self st0 mt a u = Inl UnboundLocalError \<and>
         process_download self st results = Inl UnboundLocalError \<and>
         parse_tags self st (results # done) = Inl UnboundLocalError \<and>
         (\<forall>before st1. parse_tags self st1 before = Inr st \<longrightarrow>
            parse_tags self st1 (before @ results # done) = Inl UnboundLocalError)"
proof -
  have ct: "\<And>st0 a u. create_tag self st0 mt a u = Inl UnboundLocalError"
    using assms(4,5) by (simp add: create_tag_def Let_def)
  from save_artifact_total [of "db st" results] obtain a d where
    sa: "save_artifact (db st) results = Inr (a, d)" by blast
  have pd: "process_download self st results = Inl UnboundLocalError"
    using sa assms(1,2,3) ct by (simp add: process_download_def Let_def)
  then have pt: "parse_tags self st (results # done) = Inl UnboundLocalError"
    by simp
  then have "\<forall>before st1. parse_tags self st1 before = Inr st \<longrightarrow>
            parse_tags self st1 (before @ results # done) = Inl UnboundLocalError"
    by (simp add: parse_tags_append del: parse_tags.simps)
  with ct pd pt show ?thesis by blast
qed

theorem unsupported_media_type_aborts_the_run_witness:
  "process_download example_stage (initial empty_db)
       (example_result (JObj [(''schemaVersion'', JNum 1), (''mediaType'', JStr ''manifest.v1+json'')])) =
     Inl UnboundLocalError"
proof -
  let ?kvs = "[(''schemaVersion'', JNum 1), (''mediaType'', JStr ''manifest.v1+json'')]"
  have "payload (example_result (JObj ?kvs)) = JObj ?kvs"
    and "map_of ?kvs ''mediaType'' = Some (JStr ''manifest.v1+json'')"
    and "py_truthy (JStr ''manifest.v1+json'')"
    and "JStr ''manifest.v1+json'' \<noteq> JStr (MANIFEST_V2 (MEDIA_TYPE example_stage))"
    and "JStr ''manifest.v1+json'' \<noteq> JStr (MANIFEST_LIST (MEDIA_TYPE example_stage))"
    by (simp_all add: registry_defs)
  from unsupported_media_type_aborts_the_run [OF this] show ?thesis by blast
qed

section \<open>A manifest without layers, and one without a config\<close>


lemma blob_node_not_None: "blob_node self JNull = Inl TypeError"
  by (simp add: blob_node_def)

lemma handle_blobs_no_config:
  assumes "map_of kvs ''config'' = None"
  shows "handle_blobs self st man (JObj kvs) \<noteq> Inr st'"
    and "map_of kvs ''layers'' = Some ls \<Longrightarrow> py_iter ls = Inr layers \<Longrightarrow>
         handle_layers self st man layers = Inr st1 \<Longrightarrow>
         handle_blobs self st man (JObj kvs) = Inl TypeError"
  using assms by (auto simp: handle_blobs_eq and_then_eq_Inr blob_node_not_None)



lemma fold_put:
  fixes s :: builder
  shows "out (fold (\<lambda>r s. put s r) rs s) = out s @ map (\<lambda>r. (r, heap s r)) rs \<and>
         heap (fold (\<lambda>r s. put s r) rs s) = heap s"
proof (induction rs arbitrary: s)
  case Nil
  show ?case by simp
next
  case (Cons r rs)
  show ?case by (simp add: Cons.IH) (simp add: put_def)
qed

lemma put_all_out: "out (put_all st rs) = out st @ map (\<lambda>r. (r, heap st r)) rs"
  by (simp add: put_all_def fold_put)





text \<open>
  C10. For the document of a single manifest without a \<open>config\<close> field,
  \<open>handle_blobs\<close> never returns normally: the descriptor it hands to
  \<open>create_and_process_blob\<close> is \<^verbatim>\<open>None\<close>, on which that function fails with
  \<^verbatim>\<open>TypeError\<close>, and this is the error of \<open>handle_blobs\<close> whenever the loop over the
  layers went through. The processing of a download with such a document (of the
  manifest media type) does not return normally, nor does the loop over the downloads:
  no manifest without a config blob is produced.
\<close>

theorem manifest_without_config_aborts_the_run:
  assumes "map_of kvs ''config'' = None"
  shows "(\<forall>st'. handle_blobs self st man (JObj kvs) \<noteq> Inr st') \<and>
    create_and_process_blob self st man JNull = Inl TypeError \<and>
    (\<forall>ls layers st1. map_of kvs ''layers'' = Some ls \<and> py_iter ls = Inr layers \<and>
        handle_layers self st man layers = Inr st1
        \<longrightarrow> handle_blobs self st man (JObj kvs) = Inl TypeError) \<and>
    (payload results = JObj kvs \<and>
     map_of kvs ''mediaType'' = Some (JStr (MANIFEST_V2 (MEDIA_TYPE self))) \<and>
     MANIFEST_V2 (MEDIA_TYPE self) \<noteq> [] \<and>
     MANIFEST_V2 (MEDIA_TYPE self) \<noteq> MANIFEST_LIST (MEDIA_TYPE self)
     \<longrightarrow> (\<forall>st'. process_download self st results \<noteq> Inr st') \<and>
         (\<forall>done st'. parse_tags self st (results # done) \<noteq> Inr st') \<and>
         (\<forall>sv. map_of kvs ''schemaVersion'' = Some sv \<and> map_of kvs ''layers'' = Some (JArr [])
            \<longrightarrow> process_download self st results = Inl TypeError))"
proof -
  have 1: "\<And>st man st'. handle_blobs self st man (JObj kvs) \<noteq> Inr st'"
    using handle_blobs_no_config(1) [OF assms] by blast
  have 2: "create_and_process_blob self st man JNull = Inl TypeError"
    by (simp add: create_and_process_blob_def)
  have 3: "\<forall>ls layers st1. map_of kvs ''layers'' = Some ls \<and> py_iter ls = Inr layers \<and>
        handle_layers self st man layers = Inr st1
        \<longrightarrow> handle_blobs self st man (JObj kvs) = Inl TypeError"
    using handle_blobs_no_config(2) [OF assms] by blast
  have 4: "(\<forall>st'. process_download self st results \<noteq> Inr st') \<and>
         (\<forall>done st'. parse_tags self st (results # done) \<noteq> Inr st') \<and>
         (\<forall>sv. map_of kvs ''schemaVersion'' = Some sv \<and> map_of kvs ''layers'' = Some (JArr [])
            \<longrightarrow> process_download self st results = Inl TypeError)"
    if h: "payload results = JObj kvs"
      "map_of kvs ''mediaType'' = Some (JStr (MANIFEST_V2 (MEDIA_TYPE self)))"
      "MANIFEST_V2 (MEDIA_TYPE self) \<noteq> []"
      "MANIFEST_V2 (MEDIA_TYPE self) \<noteq> MANIFEST_LIST (MEDIA_TYPE self)"
  proof -
    from save_artifact_total [of "db st" results] obtain a d0 where
      sa: "save_artifact (db st) results = Inr (a, d0)" by blast
    have pd: "process_download self st results \<noteq> Inr st'" for st'
      using sa h 1
      by (auto simp: process_download_def Let_def create_tag_def DeclarativeContent_def
            and_then_eq_Inr)
    then have pt: "parse_tags self st (results # done) \<noteq> Inr st'" for "done" st'
      by (auto simp: and_then_eq_Inr)
    have "process_download self st results = Inl TypeError"
      if "map_of kvs ''schemaVersion'' = Some sv" "map_of kvs ''layers'' = Some (JArr [])" for sv
      using sa h that assms
      by (simp add: process_download_def Let_def create_tag_def DeclarativeContent_def
            create_and_process_tagged_manifest_def tag_digest_def DeclarativeArtifact_def
            handle_blobs_eq blob_node_not_None)
    with pd pt show ?thesis by blast
  qed
  from 1 2 3 4 show ?thesis by blast
qed

theorem manifest_without_config_aborts_the_run_witness:
  "handle_blobs example_stage (initial empty_db) 1 example_manifest_without_config
     = Inl TypeError \<and>
   process_download example_stage (initial empty_db)
     (example_result example_manifest_without_config) = Inl TypeError"
proof -
  let ?kvs = "[(''schemaVersion'', JNum 2), (''mediaType'', JStr ''manifest.v2+json''),
           (''layers'', JArr [])]"
  have c: "map_of ?kvs ''config'' = None"
    by simp
  note main = manifest_without_config_aborts_the_run
    [OF c, where self = example_stage and st = "initial empty_db" and man = 1
       and results = "example_result example_manifest_without_config"]
  have l: "map_of ?kvs ''layers'' = Some (JArr []) \<and> py_iter (JArr []) = Inr [] \<and>
      handle_layers example_stage (initial empty_db) 1 [] = Inr (initial empty_db)"
    by simp
  from main l have 1: "handle_blobs example_stage (initial empty_db) 1 (JObj ?kvs) = Inl TypeError"
    by blast
  have h: "payload (example_result example_manifest_without_config) = JObj ?kvs \<and>
     map_of ?kvs ''mediaType'' = Some (JStr (MANIFEST_V2 (MEDIA_TYPE example_stage))) \<and>
     MANIFEST_V2 (MEDIA_TYPE example_stage) \<noteq> [] \<and>
     MANIFEST_V2 (MEDIA_TYPE example_stage) \<noteq> MANIFEST_LIST (MEDIA_TYPE example_stage) \<and>
     map_of ?kvs ''schemaVersion'' = Some (JNum 2) \<and> map_of ?kvs ''layers'' = Some (JArr [])"
    by (simp add: registry_defs)
  from main h have 2: "process_download example_stage (initial empty_db)
     (example_result example_manifest_without_config) = Inl TypeError"
    by blast
  from 1 2 show ?thesis
    by (simp add: example_manifest_without_config_def)
qed

section \<open>The order of emission\<close>

lemma create_tag_Inr:
  assumes "create_tag self st mt a u = Inr (r, st1)"
  shows "\<exists>d. r = next_ref st \<and>
           st1 = st\<lparr>heap := (heap st)(next_ref st := d), next_ref := Suc (next_ref st)\<rparr> \<and>
           extra_data d = [] \<and> d_artifacts d \<noteq> [] \<and>
           artifact (hd (d_artifacts d)) = a \<and>
           ((mt = JStr (MANIFEST_LIST (MEDIA_TYPE self)) \<and>
               content d = ManifestListTag (last_segment u) None) \<or>
            (mt \<noteq> JStr (MANIFEST_LIST (MEDIA_TYPE self)) \<and>
               mt = JStr (MANIFEST_V2 (MEDIA_TYPE self)) \<and>
               content d = ManifestTag (last_segment u) None))"
  using assms
  by (auto simp: create_tag_def Let_def DeclarativeContent_def DeclarativeArtifact_def
           split: if_splits)

lemma create_and_process_tagged_manifest_Inr:
  assumes "create_and_process_tagged_manifest self st tag_dc data = Inr (r, st2)"
  shows "\<exists>d. r = next_ref st \<and>
           st2 = st\<lparr>heap := (heap st)(next_ref st := d), next_ref := Suc (next_ref st)\<rparr> \<and>
           extra_data d = [] \<and> is_manifest (content d)"
  using assms
  by (auto simp: create_and_process_tagged_manifest_def Let_def DeclarativeContent_def
        and_then_eq_Inr)

lemma create_and_process_manifest_Inr:
  assumes "create_and_process_manifest self st list_dc data = Inr (r, st1)"
  shows "\<exists>d. r = next_ref st \<and>
           st1 = st\<lparr>heap := (heap st)(next_ref st := d), next_ref := Suc (next_ref st)\<rparr> \<and>
           extra_data d = [(''relation'', list_dc)] \<and> (\<exists>g v t c. content d = ImageManifest g v t c)"
  using assms
  by (auto simp: create_and_process_manifest_def Let_def DeclarativeContent_def
        and_then_eq_Inr)

lemma create_and_process_tagged_manifest_list_Inr:
  assumes "create_and_process_tagged_manifest_list self st tag_dc data = Inr (r, st2)"
  shows "r = next_ref st \<and> next_ref st2 = Suc (next_ref st) \<and>
         (\<forall>x. x \<noteq> next_ref st \<longrightarrow> heap st2 x = heap st x) \<and>
         out st2 = out st \<and> put_later_blob_dc st2 = put_later_blob_dc st \<and>
         extra_data (heap st2 r) = []"
proof -
  from assms obtain dgst a sv mt where
    rest: "(let manifest_list = ManifestList dgst sv mt;
           da = DeclarativeArtifact self a (manifests_url self dgst) dgst;
           (list_dc, st1) = DeclarativeContent st
              \<lparr>content = manifest_list, d_artifacts = [da], extra_data = [], does_batch = True\<rparr>
       in case save (db st1) (content (heap st1 list_dc)) of
            Inr d \<Rightarrow> Inr (list_dc, st1\<lparr>db := d\<rparr>)
          | Inl e \<Rightarrow>
              if e = IntegrityError then
                and_then (ManifestList_get (db st1) dgst)
                  (\<lambda>existing_list. Inr (list_dc, set_content st1 list_dc existing_list))
              else Inl e) = Inr (r, st2)"
    by (auto simp: create_and_process_tagged_manifest_list_def and_then_eq_Inr)
  show ?thesis
  proof (cases "\<exists>x \<in> set (ManifestList_objects (db st)). same_digest dgst x")
    case False
    with rest show ?thesis
      by (auto simp: Let_def DeclarativeContent_def)
  next
    case True
    with rest show ?thesis
      by (auto simp: Let_def DeclarativeContent_def and_then_eq_Inr set_content_def)
  qed
qed

lemma handle_manifests_spec:
  "handle_manifests self st list_dc ms = Inr st' \<Longrightarrow>
     next_ref st \<le> next_ref st' \<and> (\<forall>r < next_ref st. heap st' r = heap st r) \<and>
     (\<exists>new. out st' = out st @ new \<and> (\<forall>e \<in> set new. is_manifest (content (snd e)))) \<and>
     put_later_blob_dc st' = put_later_blob_dc st"
proof (induction ms arbitrary: st)
  case Nil
  then show ?case by simp
next
  case (Cons m ms)
  from Cons.prems obtain r st1 where
    c: "create_and_process_manifest self st list_dc m = Inr (r, st1)"
    by (auto simp: and_then_eq_Inr)
  from create_and_process_manifest_Inr [OF c] obtain d g v t cb where
    r: "r = next_ref st"
    and st1: "st1 = st\<lparr>heap := (heap st)(next_ref st := d), next_ref := Suc (next_ref st)\<rparr>"
    and cd: "content d = ImageManifest g v t cb"
    by blast
  from Cons.prems c r st1 cd obtain k where k: "py_key g = Inr k"
    by (auto simp: and_then_eq_Inr Let_def)
  let ?st5 = "(put (st1\<lparr>future_manifests := future_manifests st1 @ [r],
                          man_dcs := AList.update k r (man_dcs st1)\<rparr>) r)
                  \<lparr>man_dc_counter := Suc (man_dc_counter st1)\<rparr>"
  from Cons.prems c r st1 cd k have rest: "handle_manifests self ?st5 list_dc ms = Inr st'"
    by (simp add: Let_def put_def)
  note IH = Cons.IH [OF rest]
  from IH obtain new where new: "out st' = out ?st5 @ new"
    "\<forall>e \<in> set new. is_manifest (content (snd e))" by blast
  have o: "out st' = out st @ ((r, d) # new)"
    using new r st1 by (simp add: put_def)
  have "\<forall>e \<in> set ((r, d) # new). is_manifest (content (snd e))"
    using new cd by simp
  with o have A: "\<exists>new. out st' = out st @ new \<and> (\<forall>e \<in> set new. is_manifest (content (snd e)))"
    by blast
  have B: "next_ref st \<le> next_ref st'"
    using IH st1 by (simp add: put_def)
  have C: "\<forall>r < next_ref st. heap st' r = heap st r"
    using IH st1 by (simp add: put_def)
  have D: "put_later_blob_dc st' = put_later_blob_dc st"
    using IH st1 by (simp add: put_def)
  from A B C D show ?case by blast
qed


lemma process_download_Inr:
  assumes "process_download self st results = Inr st'"
  shows "(\<exists>d. st' = st\<lparr>db := d\<rparr>) \<or>
    (\<exists>st5 st6 mand tagd nm m.
       next_ref st5 = Suc (Suc (next_ref st)) \<and> heap st5 (next_ref st) = tagd \<and>
       content tagd = ManifestTag nm m \<and>
       map_of (extra_data tagd) ''man_relation'' = Some (Suc (next_ref st)) \<and>
       is_manifest (content mand) \<and> out st5 = out st @ [(Suc (next_ref st), mand)] \<and>
       put_later_blob_dc st5 = put_later_blob_dc st \<and>
       (\<forall>r < next_ref st. heap st5 r = heap st r) \<and>
       handle_blobs self st5 (Suc (next_ref st)) (payload results) = Inr st6 \<and>
       st' = put st6 (next_ref st)) \<or>
    (\<exists>st6 st7 listd tagd nm m ms.
       next_ref st6 = Suc (Suc (next_ref st)) \<and> heap st6 (next_ref st) = tagd \<and>
       content tagd = ManifestListTag nm m \<and>
       map_of (extra_data tagd) ''list_relation'' = Some (Suc (next_ref st)) \<and>
       is_manifest_list (content listd) \<and> out st6 = out st @ [(Suc (next_ref st), listd)] \<and>
       put_later_blob_dc st6 = put_later_blob_dc st \<and>
       (\<forall>r < next_ref st. heap st6 r = heap st r) \<and>
       handle_manifests self st6 (Suc (next_ref st)) ms = Inr st7 \<and>
       st' = put st7 (next_ref st))"
proof -
  let ?n = "next_ref st"
  from assms obtain a d where sa: "save_artifact (db st) results = Inr (a, d)"
    by (auto simp: process_download_def and_then_eq_Inr)
  let ?st0 = "st\<lparr>db := d\<rparr>"
  from assms sa obtain mt where mt: "py_get (payload results) ''mediaType'' = Inr mt"
    by (auto simp: process_download_def and_then_eq_Inr Let_def)
  show ?thesis
  proof (cases "py_truthy mt")
    case False
    with assms sa mt have "st' = ?st0"
      by (simp add: process_download_def Let_def)
    then show ?thesis by blast
  next
    case True
    with assms sa mt obtain tag_dc st1 where
      ct: "create_tag self ?st0 mt a (result_url results) = Inr (tag_dc, st1)"
      by (auto simp: process_download_def and_then_eq_Inr Let_def)
    from create_tag_Inr [OF ct] obtain tagd where
      tag_dc: "tag_dc = ?n"
      and st1: "st1 = ?st0\<lparr>heap := (heap ?st0)(?n := tagd), next_ref := Suc ?n\<rparr>"
      and te: "extra_data tagd = []"
      and kind: "content tagd = ManifestListTag (last_segment (result_url results)) None \<or>
                 content tagd = ManifestTag (last_segment (result_url results)) None"
      by auto
    let ?nm = "last_segment (result_url results)"
    from assms sa mt True ct have body:
      "(case content (heap st1 tag_dc) of
                  ManifestListTag n m \<Rightarrow>
                    and_then
                      (create_and_process_tagged_manifest_list self st1 tag_dc (payload results))
                      (\<lambda>(list_dc, st2).
                         let st3 = put st2 list_dc;
                             st4 = st3\<lparr>list_dc_counter := Suc (list_dc_counter st3)\<rparr>;
                             st5 = set_extra_data st4 tag_dc ''list_relation'' list_dc
                         in
                         case content (heap st5 list_dc) of
                           ManifestList g _ _ \<Rightarrow>
                             (let st6 = set_content st5 tag_dc (ManifestListTag n (Some g)) in
                              and_then (py_get (payload results) ''manifests'') (\<lambda>ms.
                              and_then (py_iter ms) (\<lambda>manifests.
                              and_then (handle_manifests self st6 list_dc manifests) (\<lambda>st7.
                                Inr (put st7 tag_dc)))))
                         | _ \<Rightarrow> Inl ValueError)
                | ManifestTag n m \<Rightarrow>
                    and_then (create_and_process_tagged_manifest self st1 tag_dc (payload results))
                      (\<lambda>(man_dc, st2).
                         let st3 = put st2 man_dc;
                             st4 = st3\<lparr>man_dc_tagged_counter := Suc (man_dc_tagged_counter st3)\<rparr>;
                             st5 = set_extra_data st4 tag_dc ''man_relation'' man_dc
                         in
                         and_then (handle_blobs self st5 man_dc (payload results)) (\<lambda>st6.
                           Inr (put st6 tag_dc)))
                | _ \<Rightarrow> Inr (put st1 tag_dc)) = Inr st'"
      by (simp add: process_download_def Let_def)
    have h1: "content (heap st1 tag_dc) = content tagd"
      using st1 tag_dc by simp
    from kind show ?thesis
    proof
      assume k: "content tagd = ManifestTag ?nm None"
      from body h1 k obtain man_dc st2 where
        cm: "create_and_process_tagged_manifest self st1 tag_dc (payload results) = Inr (man_dc, st2)"
        by (auto simp: and_then_eq_Inr)
      from create_and_process_tagged_manifest_Inr [OF cm] obtain mand where
        man_dc: "man_dc = Suc ?n"
        and st2: "st2 = st1\<lparr>heap := (heap st1)(Suc ?n := mand), next_ref := Suc (Suc ?n)\<rparr>"
        and mk: "is_manifest (content mand)"
        using st1 by auto
      let ?st5 = "set_extra_data ((put st2 man_dc)
          \<lparr>man_dc_tagged_counter := Suc (man_dc_tagged_counter (put st2 man_dc))\<rparr>)
          tag_dc ''man_relation'' man_dc"
      from body h1 k cm obtain st6 where
        hb: "handle_blobs self ?st5 man_dc (payload results) = Inr st6"
        and st': "st' = put st6 tag_dc"
        by (auto simp: and_then_eq_Inr Let_def)
      have p1: "next_ref ?st5 = Suc (Suc ?n)"
        using st2 st1 by (simp add: set_extra_data_def put_def)
      have p2: "heap ?st5 ?n = tagd\<lparr>extra_data := [(''man_relation'', Suc ?n)]\<rparr>"
        using st2 st1 tag_dc man_dc te by (simp add: set_extra_data_def put_def)
      have p3: "out ?st5 = out st @ [(Suc ?n, mand)]"
        using st2 st1 tag_dc man_dc by (simp add: set_extra_data_def put_def)
      have p4: "put_later_blob_dc ?st5 = put_later_blob_dc st"
        using st2 st1 by (simp add: set_extra_data_def put_def)
      have p5: "\<forall>r < ?n. heap ?st5 r = heap st r"
        using st2 st1 tag_dc man_dc by (simp add: set_extra_data_def put_def)
      have "\<exists>st5 st6 mand tagd nm m.
       next_ref st5 = Suc (Suc ?n) \<and> heap st5 ?n = tagd \<and>
       content tagd = ManifestTag nm m \<and>
       map_of (extra_data tagd) ''man_relation'' = Some (Suc ?n) \<and>
       is_manifest (content mand) \<and> out st5 = out st @ [(Suc ?n, mand)] \<and>
       put_later_blob_dc st5 = put_later_blob_dc st \<and>
       (\<forall>r < ?n. heap st5 r = heap st r) \<and>
       handle_blobs self st5 (Suc ?n) (payload results) = Inr st6 \<and>
       st' = put st6 ?n"
        apply (rule exI [of _ ?st5], rule exI [of _ st6], rule exI [of _ mand])
        apply (rule exI [of _ "tagd\<lparr>extra_data := [(''man_relation'', Suc ?n)]\<rparr>"])
        apply (rule exI [of _ ?nm], rule exI [of _ None])
        using p1 p2 p3 p4 p5 k mk hb st' tag_dc man_dc by simp
      then show ?thesis by blast
    next
      assume k: "content tagd = ManifestListTag ?nm None"
      from body h1 k obtain list_dc st2 where
        cl: "create_and_process_tagged_manifest_list self st1 tag_dc (payload results) = Inr (list_dc, st2)"
        by (auto simp: and_then_eq_Inr)
      from create_and_process_tagged_manifest_list_Inr [OF cl] have
        list_dc: "list_dc = Suc ?n"
        and n2: "next_ref st2 = Suc (Suc ?n)"
        and h2: "\<forall>x. x \<noteq> Suc ?n \<longrightarrow> heap st2 x = heap st1 x"
        and o2: "out st2 = out st1" and pl2: "put_later_blob_dc st2 = put_later_blob_dc st1"
        using st1 by auto
      let ?st5 = "set_extra_data ((put st2 list_dc)
          \<lparr>list_dc_counter := Suc (list_dc_counter (put st2 list_dc))\<rparr>)
          tag_dc ''list_relation'' list_dc"
      have hl: "heap ?st5 list_dc = heap st2 list_dc"
        using tag_dc list_dc by (simp add: set_extra_data_def put_def)
      from body h1 k cl obtain g v t where
        lk: "content (heap ?st5 list_dc) = ManifestList g v t"
        by (cases "content (heap ?st5 list_dc)") (auto simp: and_then_eq_Inr Let_def)
      let ?st6 = "set_content ?st5 tag_dc (ManifestListTag ?nm (Some g))"
      from body h1 k cl lk obtain ms st7 where
        hm: "handle_manifests self ?st6 list_dc ms = Inr st7"
        and st': "st' = put st7 tag_dc"
        by (auto simp: and_then_eq_Inr Let_def)
      have ht: "heap st2 ?n = tagd"
        using h2 st1 by simp
      have p1: "next_ref ?st6 = Suc (Suc ?n)"
        using n2 by (simp add: set_extra_data_def put_def set_content_def)
      have p2: "heap ?st6 ?n = tagd\<lparr>extra_data := [(''list_relation'', Suc ?n)],
          content := ManifestListTag ?nm (Some g)\<rparr>"
        using ht tag_dc list_dc te by (simp add: set_extra_data_def put_def set_content_def)
      have p3: "out ?st6 = out st @ [(Suc ?n, heap st2 (Suc ?n))]"
        using o2 st1 list_dc by (simp add: set_extra_data_def put_def set_content_def)
      have p4: "put_later_blob_dc ?st6 = put_later_blob_dc st"
        using pl2 st1 by (simp add: set_extra_data_def put_def set_content_def)
      have p5: "\<forall>r < ?n. heap ?st6 r = heap st r"
        using h2 st1 tag_dc list_dc by (simp add: set_extra_data_def put_def set_content_def)
      have p6: "is_manifest_list (content (heap st2 (Suc ?n)))"
        using lk hl list_dc by simp
      have "\<exists>st6 st7 listd tagd nm m ms.
       next_ref st6 = Suc (Suc ?n) \<and> heap st6 ?n = tagd \<and>
       content tagd = ManifestListTag nm m \<and>
       map_of (extra_data tagd) ''list_relation'' = Some (Suc ?n) \<and>
       is_manifest_list (content listd) \<and> out st6 = out st @ [(Suc ?n, listd)] \<and>
       put_later_blob_dc st6 = put_later_blob_dc st \<and>
       (\<forall>r < ?n. heap st6 r = heap st r) \<and>
       handle_manifests self st6 (Suc ?n) ms = Inr st7 \<and>
       st' = put st7 ?n"
        apply (rule exI [of _ ?st6], rule exI [of _ st7], rule exI [of _ "heap st2 (Suc ?n)"])
        apply (rule exI [of _ "tagd\<lparr>extra_data := [(''list_relation'', Suc ?n)],
          content := ManifestListTag ?nm (Some g)\<rparr>"])
        apply (rule exI [of _ ?nm], rule exI [of _ "Some g"], rule exI [of _ ms])
        using p1 p2 p3 p4 p5 p6 hm st' tag_dc list_dc by simp
      then show ?thesis by blast
    qed
  qed
qed


lemma put_before_mono:
  "put_before earlier kind t \<Longrightarrow> set earlier \<subseteq> set earlier' \<Longrightarrow> put_before earlier' kind t"
  by (cases t) (auto simp: put_before_def list_ex_iff)

lemma tag_after_target_mono:
  "tag_after_target earlier d \<Longrightarrow> set earlier \<subseteq> set earlier' \<Longrightarrow> tag_after_target earlier' d"
  by (cases "content d") (auto intro: put_before_mono)

lemma emitted_in_order_mono:
  "emitted_in_order earlier q \<Longrightarrow> set earlier \<subseteq> set earlier' \<Longrightarrow> emitted_in_order earlier' q"
proof (induction q arbitrary: earlier earlier')
  case Nil
  show ?case by simp
next
  case (Cons e q)
  from Cons.prems have a: "tag_after_target earlier (snd e)"
    and b: "emitted_in_order (earlier @ [e]) q" by simp_all
  have "set (earlier @ [e]) \<subseteq> set (earlier' @ [e])"
    using Cons.prems(2) by auto
  from Cons.IH [OF b this] tag_after_target_mono [OF a Cons.prems(2)] show ?case
    by simp
qed

lemma emitted_in_order_append:
  "emitted_in_order earlier (xs @ ys) \<longleftrightarrow>
     emitted_in_order earlier xs \<and> emitted_in_order (earlier @ xs) ys"
  by (induction xs arbitrary: earlier) auto

lemma emitted_in_order_no_tags:
  "\<forall>e \<in> set q. \<not> is_tag (content (snd e)) \<Longrightarrow> emitted_in_order earlier q"
proof (induction q arbitrary: earlier)
  case Nil
  show ?case by simp
next
  case (Cons e q)
  then have "\<not> is_tag (content (snd e))" by simp
  then have "tag_after_target earlier (snd e)"
    by (cases "content (snd e)") simp_all
  with Cons show ?case by simp
qed

lemma is_manifest_not_tag: "is_manifest c \<Longrightarrow> \<not> is_tag c"
  by (cases c) simp_all

lemma is_manifest_list_not_tag: "is_manifest_list c \<Longrightarrow> \<not> is_tag c"
  by (cases c) simp_all

lemma is_blob_not_tag: "is_blob c \<Longrightarrow> \<not> is_tag c"
  by (cases c) simp_all

lemma handle_blobs_set_aside:
  assumes hb: "handle_blobs self st man content_data = Inr st'" and J: "blobs_set_aside st"
  shows "blobs_set_aside st'"
proof -
  from handle_blobs_spec [OF hb] obtain layers :: "json list" and cfg d where
    pl: "put_later_blob_dc st' = put_later_blob_dc st @
        [next_ref st ..< next_ref st + length (included_layers self layers)] @
        [next_ref st + length (included_layers self layers)]"
    and lay: "\<forall>i < length (included_layers self layers). \<exists>b.
         blob_node self (included_layers self layers ! i) = Inr b \<and>
         heap st' (next_ref st + i) = b\<lparr>extra_data := [(''blob_relation'', man)]\<rparr>"
    and cd: "blob_node self cfg = Inr d"
    and cf: "heap st' (next_ref st + length (included_layers self layers)) =
        d\<lparr>extra_data := [(''config_relation'', man)]\<rparr>"
    and n: "next_ref st' = Suc (next_ref st + length (included_layers self layers))"
    and fr: "\<forall>r < next_ref st. heap st' r = heap st r"
    by blast
  let ?k = "length (included_layers self layers)"
  show ?thesis
    unfolding blobs_set_aside_def
  proof
    fix r assume "r \<in> set (put_later_blob_dc st')"
    then consider (old) "r \<in> set (put_later_blob_dc st)"
      | (layer) "next_ref st \<le> r" "r < next_ref st + ?k"
      | (config) "r = next_ref st + ?k"
      unfolding pl by auto
    then show "r < next_ref st' \<and> is_blob (content (heap st' r))"
    proof cases
      case old
      with J have "r < next_ref st" "is_blob (content (heap st r))"
        by (auto simp: blobs_set_aside_def)
      with fr n show ?thesis by simp
    next
      case layer
      then obtain i where i: "r = next_ref st + i" "i < ?k"
        by (metis add_diff_inverse_nat less_diff_conv2 not_less add.commute nat_add_left_cancel_less)
      with lay obtain b where "blob_node self (included_layers self layers ! i) = Inr b"
        "heap st' r = b\<lparr>extra_data := [(''blob_relation'', man)]\<rparr>" by blast
      with blob_node_extra [of self _ b] i n show ?thesis by simp
    next
      case config
      with cf have "heap st' r = d\<lparr>extra_data := [(''config_relation'', man)]\<rparr>"
        by simp
      with blob_node_extra [OF cd] config n show ?thesis by simp
    qed
  qed
qed


lemma process_download_step:
  assumes pd: "process_download self st results = Inr st'"
  shows "(\<exists>new. out st' = out st @ new \<and> emitted_in_order [] new) \<and>
         (blobs_set_aside st \<longrightarrow> blobs_set_aside st')"
proof -
  let ?n = "next_ref st"
  from process_download_Inr [OF pd] consider
    (dropped) d where "st' = st\<lparr>db := d\<rparr>"
  | (manifest) st5 st6 mand tagd nm m where
       "next_ref st5 = Suc (Suc ?n)" "heap st5 ?n = tagd"
       "content tagd = ManifestTag nm m"
       "map_of (extra_data tagd) ''man_relation'' = Some (Suc ?n)"
       "is_manifest (content mand)" "out st5 = out st @ [(Suc ?n, mand)]"
       "put_later_blob_dc st5 = put_later_blob_dc st"
       "\<forall>r < ?n. heap st5 r = heap st r"
       "handle_blobs self st5 (Suc ?n) (payload results) = Inr st6"
       "st' = put st6 ?n"
  | (list) st6 st7 listd tagd nm m ms where
       "next_ref st6 = Suc (Suc ?n)" "heap st6 ?n = tagd"
       "content tagd = ManifestListTag nm m"
       "map_of (extra_data tagd) ''list_relation'' = Some (Suc ?n)"
       "is_manifest_list (content listd)" "out st6 = out st @ [(Suc ?n, listd)]"
       "put_later_blob_dc st6 = put_later_blob_dc st"
       "\<forall>r < ?n. heap st6 r = heap st r"
       "handle_manifests self st6 (Suc ?n) ms = Inr st7"
       "st' = put st7 ?n"
    by blast
  then show ?thesis
  proof cases
    case dropped
    then have "out st' = out st @ []" by simp
    moreover have "blobs_set_aside st \<longrightarrow> blobs_set_aside st'"
      using dropped by (simp add: blobs_set_aside_def)
    ultimately show ?thesis by (metis emitted_in_order.simps(1))
  next
    case manifest
    note spec = handle_blobs_spec [OF manifest(9)]
    from spec have o6: "out st6 = out st5" and h6: "heap st6 ?n = tagd"
      using manifest(1,2) by auto
    have o: "out st' = out st @ [(Suc ?n, mand), (?n, tagd)]"
      using manifest(6,10) o6 h6 by (simp add: put_def)
    have "tag_after_target [] mand"
      using manifest(5) by (cases "content mand") simp_all
    moreover have "tag_after_target [(Suc ?n, mand)] tagd"
      using manifest(3,4,5) by (simp add: put_before_def)
    ultimately have e: "emitted_in_order [] [(Suc ?n, mand), (?n, tagd)]"
      by simp
    have J: "blobs_set_aside st \<longrightarrow> blobs_set_aside st'"
    proof
      assume J0: "blobs_set_aside st"
      have "blobs_set_aside st5"
        using J0 manifest(1,7,8) by (auto simp: blobs_set_aside_def)
      from handle_blobs_set_aside [OF manifest(9) this]
      show "blobs_set_aside st'"
        using manifest(10) by (simp add: blobs_set_aside_def put_def)
    qed
    from o e J show ?thesis by blast
  next
    case list
    note spec = handle_manifests_spec [OF list(9)]
    from spec obtain new where new: "out st7 = out st6 @ new"
      "\<forall>e \<in> set new. is_manifest (content (snd e))" by blast
    from spec have h7: "heap st7 ?n = tagd"
      using list(1,2) by simp
    have o: "out st' = out st @ ([(Suc ?n, listd)] @ new @ [(?n, tagd)])"
      using list(6,10) new h7 by (simp add: put_def)
    have a: "emitted_in_order [] ([(Suc ?n, listd)] @ new)"
      using new(2) list(5)
      by (intro emitted_in_order_no_tags)
         (auto dest: is_manifest_not_tag is_manifest_list_not_tag)
    have "tag_after_target ([(Suc ?n, listd)] @ new) tagd"
      using list(3,4,5) by (simp add: put_before_def)
    then have "emitted_in_order ([(Suc ?n, listd)] @ new) [(?n, tagd)]"
      by simp
    with a have e: "emitted_in_order [] ([(Suc ?n, listd)] @ new @ [(?n, tagd)])"
      using emitted_in_order_append [of "[]" "[(Suc ?n, listd)] @ new" "[(?n, tagd)]"] by simp
    have J: "blobs_set_aside st \<longrightarrow> blobs_set_aside st'"
    proof
      assume J0: "blobs_set_aside st"
      have "\<forall>r < ?n. heap st7 r = heap st r" "?n \<le> next_ref st7"
        "put_later_blob_dc st7 = put_later_blob_dc st"
        using spec list(1,7,8) by auto
      then show "blobs_set_aside st'"
        using J0 list(10) by (auto simp: blobs_set_aside_def put_def)
    qed
    from o e J show ?thesis by blast
  qed
qed

lemma emitted_in_order_compose:
  assumes "emitted_in_order [] xs" "emitted_in_order [] ys"
  shows "emitted_in_order [] (xs @ ys)"
  using assms emitted_in_order_mono [of "[]" ys xs]
  by (simp add: emitted_in_order_append)

lemma parse_tags_step:
  "parse_tags self st done = Inr st' \<Longrightarrow>
     (\<exists>new. out st' = out st @ new \<and> emitted_in_order [] new) \<and>
     (blobs_set_aside st \<longrightarrow> blobs_set_aside st')"
proof (induction "done" arbitrary: st)
  case Nil
  then have "out st' = out st @ []" by simp
  with Nil show ?case by (metis emitted_in_order.simps(1) parse_tags.simps(1) sum.inject(2))
next
  case (Cons results rest)
  from Cons.prems obtain st1 where pd: "process_download self st results = Inr st1"
    and pt: "parse_tags self st1 rest = Inr st'"
    by (auto simp: and_then_eq_Inr)
  from process_download_step [OF pd] obtain n1 where
    n1: "out st1 = out st @ n1" "emitted_in_order [] n1"
    and J1: "blobs_set_aside st \<longrightarrow> blobs_set_aside st1" by blast
  from Cons.IH [OF pt] obtain n2 where
    n2: "out st' = out st1 @ n2" "emitted_in_order [] n2"
    and J2: "blobs_set_aside st1 \<longrightarrow> blobs_set_aside st'" by blast
  have "out st' = out st @ (n1 @ n2)"
    using n1 n2 by simp
  moreover have "emitted_in_order [] (n1 @ n2)"
    using n1 n2 by (intro emitted_in_order_compose)
  ultimately show ?case using J1 J2 by blast
qed

lemma parse_blobs_step:
  "parse_blobs self st resolved = Inr st' \<Longrightarrow>
     out st' = out st \<and> (blobs_set_aside st \<longrightarrow> blobs_set_aside st')"
proof (induction resolved arbitrary: st)
  case Nil
  then show ?case by simp
next
  case (Cons x rest)
  obtain man_digest content_data where x: "x = (man_digest, content_data)"
    by (cases x)
  from Cons.prems x obtain k man_dc st1 where
    hb: "handle_blobs self st man_dc content_data = Inr st1"
    and pb: "parse_blobs self st1 rest = Inr st'"
    by (auto simp: and_then_eq_Inr split: option.splits)
  from handle_blobs_spec [OF hb] have "out st1 = out st" by blast
  with Cons.IH [OF pb] handle_blobs_set_aside [OF hb] show ?case by auto
qed

text \<open>
  C5. Whatever order the downloads finish in and the futures are resolved in (whatever
  the event loop is), in the queue of a run that returns every tag node comes after its
  target: as it is put, a tag node carries the marker of its kind (\<open>man_relation\<close> or
  \<open>list_relation\<close>), and the node the marker points at has been put before it, as a
  manifest or as a manifest list.
\<close>

theorem tag_is_emitted_after_its_target:
  assumes "DockerFirstStage_run self loop d = Inr st"
  shows "emitted_in_order [] (out st)"
proof -
  from assms obtain tag_list st1 st2 where
    pt: "parse_tags self (initial d) (wait loop (to_download self tag_list)) = Inr st1"
    and pb: "parse_blobs self st1
        (map (future_result loop) (as_completed loop (future_manifests st1))) = Inr st2"
    and st: "st = put_all st2 (put_later_blob_dc st2)"
    by (auto simp: DockerFirstStage_run_def Let_def and_then_eq_Inr)
  have J0: "blobs_set_aside (initial d)"
    by (simp add: blobs_set_aside_def initial_def)
  from parse_tags_step [OF pt] J0 obtain new where
    new: "out st1 = new" "emitted_in_order [] new" and J1: "blobs_set_aside st1"
    by (auto simp: initial_def)
  from parse_blobs_step [OF pb] J1 have o2: "out st2 = out st1" and J2: "blobs_set_aside st2"
    by auto
  let ?blobs = "map (\<lambda>r. (r, heap st2 r)) (put_later_blob_dc st2)"
  have "\<forall>e \<in> set ?blobs. \<not> is_tag (content (snd e))"
    using J2 by (auto simp: blobs_set_aside_def dest: is_blob_not_tag)
  then have "emitted_in_order new ?blobs"
    by (rule emitted_in_order_no_tags)
  moreover have "out st = new @ ?blobs"
    using st o2 new(1) by (simp add: put_all_out)
  ultimately show ?thesis
    using new(2) by (simp add: emitted_in_order_append)
qed

theorem tag_is_emitted_after_its_target_witness:
  "\<exists>st. DockerFirstStage_run example_stage example_loop empty_db = Inr st \<and>
      emitted_in_order [] (out st) \<and>
      map (content \<circ> snd) (out st) =
        [ImageManifest (JStr ''sha256:a1'') (JNum 2) (JStr ''manifest.v2+json'') None,
         ManifestTag ''latest'' None,
         ManifestBlob (JStr ''sha256:c0'') (JStr ''container.image.v1+json'')] \<and>
      map_of (extra_data (snd (out st ! 1))) ''man_relation'' = Some (fst (out st ! 0))"
proof -
  obtain st where run: "DockerFirstStage_run example_stage example_loop empty_db = Inr st"
    and q: "map (content \<circ> snd) (out st) =
        [ImageManifest (JStr ''sha256:a1'') (JNum 2) (JStr ''manifest.v2+json'') None,
         ManifestTag ''latest'' None,
         ManifestBlob (JStr ''sha256:c0'') (JStr ''container.image.v1+json'')]"
    and m: "map_of (extra_data (snd (out st ! 1))) ''man_relation'' = Some (fst (out st ! 0))"
    by (simp add: stage_defs registry_defs empty_db_def Let_def)
  from tag_is_emitted_after_its_target [OF run] run q m show ?thesis
    by (intro exI [of _ st] conjI)
qed

section \<open>The two variants of the first stage\<close>

lemmas stage1_defs = DockerFirstStage1_run_tags_def tag_list1_def initial1_def create_tag1_def
  manifests_url_def tags_list_url_def format_arg_def DeclarativeContent_def
  DeclarativeArtifact_def V2_ACCEPT_HEADERS_def put_def

text \<open>
  C8. On the tag list the two variants of the first stage differ. The variant of
  \<^verbatim>\<open>sync_stages1.py\<close> reads the fetched list and then works on six fixed names, whatever
  was fetched; the one of \<^verbatim>\<open>sync_stages.py\<close> works on the fetched list, and creates
  its downloads from exactly that list. For the example registry, whose tag list names
  the one tag \<open>latest\<close>, the queue of the latter holds the manifest, the tag and the
  config blob of that tag, while the queue of the former, after its loop over the tags,
  holds six tag nodes: the two streams differ.
\<close>

theorem variants_differ_on_the_tag_list:
  "tag_list1 (JObj [(''tags'', tags)]) =
     Inr [''musl'', ''latest'', ''glibc'', ''1-musl'', ''1-ubuntu'', ''1.29''] \<and>
   tag_list0 (JObj [(''tags'', JArr tag_list)]) = Inr tag_list \<and>
   to_download self tag_list =
     map (\<lambda>tag_name. get_downloader (remote self) (manifests_url self tag_name)) tag_list \<and>
   tag_list0 (payload (get_downloader (remote example_stage) (tags_list_url example_stage))) =
     Inr [JStr ''latest''] \<and>
   tag_list1 (payload (get_downloader (remote example_stage) (tags_list_url example_stage))) =
     Inr [''musl'', ''latest'', ''glibc'', ''1-musl'', ''1-ubuntu'', ''1.29''] \<and>
   (\<exists>st0 st1.
      DockerFirstStage_run example_stage example_loop empty_db = Inr st0 \<and>
      DockerFirstStage1_run_tags example_stage empty_db = Inr st1 \<and>
      map (content \<circ> snd) (out st0) =
        [ImageManifest (JStr ''sha256:a1'') (JNum 2) (JStr ''manifest.v2+json'') None,
         ManifestTag ''latest'' None,
         ManifestBlob (JStr ''sha256:c0'') (JStr ''container.image.v1+json'')] \<and>
      map (content \<circ> snd) (out st1) =
        [ManifestTag ''musl'' None, ManifestTag ''latest'' None, ManifestTag ''glibc'' None,
         ManifestTag ''1-musl'' None, ManifestTag ''1-ubuntu'' None, ManifestTag ''1.29'' None] \<and>
      map (content \<circ> snd) (out st0) \<noteq> map (content \<circ> snd) (out st1))"
proof -
  have a: "tag_list1 (JObj [(''tags'', tags)]) =
     Inr [''musl'', ''latest'', ''glibc'', ''1-musl'', ''1-ubuntu'', ''1.29'']"
    by (simp add: tag_list1_def)
  have b: "tag_list0 (JObj [(''tags'', JArr tag_list)]) = Inr tag_list"
    by (simp add: tag_list0_def)
  have c: "to_download self tag_list =
     map (\<lambda>tag_name. get_downloader (remote self) (manifests_url self tag_name)) tag_list"
    by (simp add: to_download_def)
  have d: "tag_list0 (payload (get_downloader (remote example_stage) (tags_list_url example_stage))) =
     Inr [JStr ''latest'']"
    by (simp add: tag_list0_def tags_list_url_def registry_defs)
  have e: "tag_list1 (payload (get_downloader (remote example_stage) (tags_list_url example_stage))) =
     Inr [''musl'', ''latest'', ''glibc'', ''1-musl'', ''1-ubuntu'', ''1.29'']"
    by (simp add: tag_list1_def tags_list_url_def registry_defs)
  obtain st0 where r0: "DockerFirstStage_run example_stage example_loop empty_db = Inr st0"
    and q0: "map (content \<circ> snd) (out st0) =
        [ImageManifest (JStr ''sha256:a1'') (JNum 2) (JStr ''manifest.v2+json'') None,
         ManifestTag ''latest'' None,
         ManifestBlob (JStr ''sha256:c0'') (JStr ''container.image.v1+json'')]"
    by (simp add: stage_defs registry_defs empty_db_def Let_def)
  obtain st1 where r1: "DockerFirstStage1_run_tags example_stage empty_db = Inr st1"
    and q1: "map (content \<circ> snd) (out st1) =
        [ManifestTag ''musl'' None, ManifestTag ''latest'' None, ManifestTag ''glibc'' None,
         ManifestTag ''1-musl'' None, ManifestTag ''1-ubuntu'' None, ManifestTag ''1.29'' None]"
    by (simp add: stage1_defs registry_defs empty_db_def Let_def)
  have ne: "map (content \<circ> snd) (out st0) \<noteq> map (content \<circ> snd) (out st1)"
    unfolding q0 q1 by simp
  have "\<exists>st0 st1.
      DockerFirstStage_run example_stage example_loop empty_db = Inr st0 \<and>
      DockerFirstStage1_run_tags example_stage empty_db = Inr st1 \<and>
      map (content \<circ> snd) (out st0) =
        [ImageManifest (JStr ''sha256:a1'') (JNum 2) (JStr ''manifest.v2+json'') None,
         ManifestTag ''latest'' None,
         ManifestBlob (JStr ''sha256:c0'') (JStr ''container.image.v1+json'')] \<and>
      map (content \<circ> snd) (out st1) =
        [ManifestTag ''musl'' None, ManifestTag ''latest'' None, ManifestTag ''glibc'' None,
         ManifestTag ''1-musl'' None, ManifestTag ''1-ubuntu'' None, ManifestTag ''1.29'' None] \<and>
      map (content \<circ> snd) (out st0) \<noteq> map (content \<circ> snd) (out st1)"
    using r0 r1 q0 q1 ne by (intro exI [of _ st0] exI [of _ st1] conjI)
  with a b c d e show ?thesis by (intro conjI)
qed

end
